theory Spec2Isabelle
  imports Main
begin

section \<open>Data model\<close>

text \<open>
  The documents of the Mongoose schemas, with the fields the services read and write.
  An ObjectId is a natural number, a Date is its millisecond count, an optional field is
  an \<open>option\<close>. The status enums of the Order and Transaction schemas are datatypes.
  A Number is an integer-valued double: prices, amounts, quantities and stocks are whole
  units, and the arithmetic on them is \<open>jsAdd\<close> and \<open>jsMul\<close> below. Numbers with a
  fractional part are not values of this model.
\<close>

type_synonym oid = nat

datatype orderStatus = Pending | Paid | Confirmed | Shipped | Delivered | Cancelled

datatype txStatus = TxPending | TxCompleted | TxFailed | TxCancelled

record flower =
  name :: string
  price :: int
  stock :: int

record account =
  fullName :: string
  email :: string
  phone :: string

record order =
  accountId :: oid
  totalAmount :: int
  shippingFee :: int
  orderAt :: int
  paidAt :: "int option"
  status :: orderStatus
  addressShip :: string
  transactionId :: "oid option"
  paymentCode :: "string option"

record orderItem =
  flowerId :: oid
  actualPrice :: int
  quantity :: int
  orderId :: oid

record transaction =
  fromAccount :: oid
  toAccount :: oid
  amount :: int
  transactionStatus :: txStatus
  transactionDate :: int

text \<open>
  A collection is the list of its documents, each with its \<open>_id\<close>, in insertion order.
  OrderItem documents are only ever selected by their \<open>orderId\<close>, so their own
  \<open>_id\<close> is left out.
\<close>

type_synonym 'a collection = "(oid \<times> 'a) list"

record db =
  flowers :: "flower collection"
  accounts :: "account collection"
  orders :: "order collection"
  orderItems :: "orderItem list"
  transactions :: "transaction collection"

text \<open>
  Every \<open>throw\<close> of the services, and the failures the datastore, the gateway and the
  interpreter raise. \<open>GatewayThrew\<close> carries the message of the error the gateway library
  threw, \<open>TypeError\<close> the name of the property that was read of null or undefined.
\<close>

datatype error =
    FlowerNotFound oid
  | NotEnoughStock oid int int
  | OrderNotFound
  | OrderNotPending
  | OrderNotFoundForPaymentCode
  | OrderNotFoundFor string
  | OrderIdRequired
  | OrderCodeMissing
  | PaymentLinkAlreadyExists
  | NoOrderItems
  | InvalidFlowerData
  | FlowerNameMissing
  | InvalidQuantity
  | TransactionNotFound
  | InvalidWebhookSignature
  | PaymentLinkCreationFailed string
  | GatewayThrew string
  | TypeError string
  | DuplicateKey
  | ValidationError
  | CastError
  | DatastoreError
  | CannotAbortAfterCommit

section \<open>Number arithmetic\<close>

text \<open>
  The doubles around a natural number \<open>n\<close> are the multiples of \<open>ulp n\<close>: every
  integer below \<open>2^53 = 9007199254740992\<close> is a double, from there to \<open>2^54\<close> every
  second one, and so on.
\<close>

fun ulp :: "nat \<Rightarrow> nat" where
  "ulp n = (if n < 9007199254740992 then 1 else 2 * ulp (n div 2))"

declare ulp.simps [simp del]

text \<open>Rounding to the nearest multiple of \<open>m\<close>, a tie going to the even quotient.\<close>

definition roundHalfEven :: "nat \<Rightarrow> nat \<Rightarrow> nat" where
  "roundHalfEven m n =
     (let q = n div m; r = n mod m
      in if 2 * r < m then q * m
         else if m < 2 * r then (q + 1) * m
         else if even q then q * m else (q + 1) * m)"

text \<open>
  The double nearest to an integer, as IEEE 754 arithmetic rounds an exact result. A
  magnitude of \<open>2^1024\<close> or more is \<open>Infinity\<close> in JavaScript and is not a value of this
  model.
\<close>

definition toDouble :: "int \<Rightarrow> int" where
  "toDouble x =
     (if \<bar>x\<bar> \<le> 9007199254740992 then x
      else sgn x * int (roundHalfEven (ulp (nat \<bar>x\<bar>)) (nat \<bar>x\<bar>)))"

text \<open>JavaScript's \<open>+\<close> and \<open>*\<close> on two Numbers: the exact result, rounded.\<close>

definition jsAdd :: "int \<Rightarrow> int \<Rightarrow> int" where
  "jsAdd x y = toDouble (x + y)"

definition jsMul :: "int \<Rightarrow> int \<Rightarrow> int" where
  "jsMul x y = toDouble (x * y)"

section \<open>Datastore operations\<close>

text \<open>\<open>Model.findById(id)\<close>: the document with that \<open>_id\<close>, or null.\<close>

definition findById :: "'a collection \<Rightarrow> oid \<Rightarrow> 'a option" where
  "findById c i = map_of c i"

text \<open>
  \<open>Model.findByIdAndUpdate(id, update)\<close>: applies the update to the document with that
  \<open>_id\<close>; no document, no change. The update is by \<open>_id\<close> alone: it has no other
  condition.
\<close>

definition findByIdAndUpdate :: "'a collection \<Rightarrow> oid \<Rightarrow> ('a \<Rightarrow> 'a) \<Rightarrow> 'a collection" where
  "findByIdAndUpdate c i f = map (\<lambda>(j, x). if j = i then (j, f x) else (j, x)) c"

text \<open>\<open>doc.save()\<close> of a new document: the unique \<open>_id\<close> index rejects a duplicate.\<close>

definition insertDoc :: "'a collection \<Rightarrow> oid \<Rightarrow> 'a \<Rightarrow> 'a collection option" where
  "insertDoc c i x = (if i \<in> set (map fst c) then None else Some (c @ [(i, x)]))"

text \<open>\<open>Order.findOne({ paymentCode })\<close>: the first order carrying that code.\<close>

definition findOneByPaymentCode :: "order collection \<Rightarrow> string \<Rightarrow> (oid \<times> order) option" where
  "findOneByPaymentCode c code = find (\<lambda>(i, ord). paymentCode ord = Some code) c"

text \<open>
  \<open>Transaction.findById(order.transactionId)\<close>, where the order may have no
  \<open>transactionId\<close>: the transaction with its \<open>_id\<close>, or null.
\<close>

fun findTransaction :: "transaction collection \<Rightarrow> oid option \<Rightarrow> (oid \<times> transaction) option" where
  "findTransaction c None = None"
| "findTransaction c (Some i) = map_option (Pair i) (findById c i)"

section \<open>OrderService\<close>

text \<open>
  A line item of the request body and the body. A quantity that arrives as a numeric
  string acts as its number wherever \<open>createOrder\<close> uses it (comparison, product,
  negation, cast). The route lets a \<open>shippingFee\<close> through that is a number or a
  numeric string, and the field may be absent.
\<close>

record itemReq =
  reqFlowerId :: oid
  reqQuantity :: int

datatype fee = FeeNumber int | FeeString string

record orderData =
  items :: "itemReq list"
  reqAddressShip :: string
  reqShippingFee :: "fee option"

text \<open>
  What the language and Mongoose do with strings, taken as given: \<open>String(n)\<close> of a
  Number, and the cast of a string to a Number field, which fails with a CastError
  (\<open>None\<close>) when the string is not a number.
\<close>

record runtime =
  numberToString :: "int \<Rightarrow> string"
  castNumber :: "string \<Rightarrow> int option"

text \<open>
  \<open>totalAmount + shippingFee\<close> with the destructuring default \<open>shippingFee = 0\<close>, and
  the two Number fields of the new Order as Mongoose casts them: the total and the fee. Two
  Numbers are added; a Number and a string are concatenated, and the cast of the result
  decides.
\<close>

fun orderAmounts :: "runtime \<Rightarrow> int \<Rightarrow> fee option \<Rightarrow> (int \<times> int) option" where
  "orderAmounts rt amt None = Some (jsAdd amt 0, 0)"
| "orderAmounts rt amt (Some (FeeNumber x)) = Some (jsAdd amt x, x)"
| "orderAmounts rt amt (Some (FeeString s)) =
     (case castNumber rt (numberToString rt amt @ s) of
        None \<Rightarrow> None
      | Some t \<Rightarrow> (case castNumber rt s of None \<Rightarrow> None | Some x \<Rightarrow> Some (t, x)))"

text \<open>
  What can go wrong in the datastore while \<open>createOrder\<close> runs: each flag says that
  the call it names throws (a validation or an I/O failure). The last one is the read of
  the order after the commit.
\<close>

record faults =
  flowerUpdateFails :: "oid \<Rightarrow> bool"
  orderSaveFails :: bool
  insertManyFails :: bool
  commitFails :: bool
  readBackFails :: bool

text \<open>
  The loop of \<open>createOrder\<close> over the requested items, on the session's view of the
  flowers: look the flower up, check the stock, add the line total, push the item with its
  price snapshot, decrement the stock with \<open>$inc\<close>. The accumulators are \<open>totalAmount\<close>
  and the pushed items \<open>(flowerId, actualPrice, quantity)\<close>.
\<close>

fun reserveItems ::
  "faults \<Rightarrow> flower collection \<Rightarrow> itemReq list \<Rightarrow> int \<Rightarrow> (oid \<times> int \<times> int) list
    \<Rightarrow> error + (flower collection \<times> int \<times> (oid \<times> int \<times> int) list)" where
  "reserveItems fl fs [] amt acc = Inr (fs, amt, acc)"
| "reserveItems fl fs (it # its) amt acc =
     (case findById fs (reqFlowerId it) of
        None \<Rightarrow> Inl (FlowerNotFound (reqFlowerId it))
      | Some f \<Rightarrow>
          if stock f < reqQuantity it
          then Inl (NotEnoughStock (reqFlowerId it) (stock f) (reqQuantity it))
          else if flowerUpdateFails fl (reqFlowerId it) then Inl DatastoreError
          else reserveItems fl
                 (findByIdAndUpdate fs (reqFlowerId it)
                    (\<lambda>g. g\<lparr>stock := jsAdd (stock g) (- reqQuantity it)\<rparr>))
                 its (jsAdd amt (jsMul (price f) (reqQuantity it)))
                 (acc @ [(reqFlowerId it, price f, reqQuantity it)]))"

text \<open>\<open>getOrderById\<close>: the order and its items, or "Order not found".\<close>

definition getOrderById :: "db \<Rightarrow> oid \<Rightarrow> error + (order \<times> orderItem list)" where
  "getOrderById d i =
     (case findById (orders d) i of
        None \<Rightarrow> Inl OrderNotFound
      | Some ord \<Rightarrow> Inr (ord, filter (\<lambda>oi. orderId oi = i) (orderItems d)))"

text \<open>
  \<open>createOrder(orderData, userId)\<close>. Every write goes through the session's
  transaction: it is made on the session's copy of the data, \<open>commitTransaction\<close>
  publishes the copy, and \<open>abortTransaction\<close> in the \<open>catch\<close> drops it, so the
  datastore is the one the call started from. \<open>now\<close> is the clock and \<open>newId\<close> the
  \<open>_id\<close> of the new Order document. The read of the order after the commit is still
  inside the \<open>try\<close>: when it throws, the \<open>catch\<close> calls \<open>abortTransaction\<close> on a
  committed transaction, which throws in its turn, and the caller gets that error with the
  order, its items and the stock committed.
\<close>

definition createOrder ::
  "faults \<Rightarrow> runtime \<Rightarrow> int \<Rightarrow> oid \<Rightarrow> db \<Rightarrow> orderData \<Rightarrow> oid
    \<Rightarrow> (error + (order \<times> orderItem list)) \<times> db" where
  "createOrder fl rt now newId d req userId =
     (case reserveItems fl (flowers d) (items req) 0 [] of
        Inl e \<Rightarrow> (Inl e, d)
      | Inr (fs, amt, pushed) \<Rightarrow>
          (case orderAmounts rt amt (reqShippingFee req) of
             None \<Rightarrow> (Inl CastError, d)
           | Some (tot, fee) \<Rightarrow>
               if orderSaveFails fl then (Inl DatastoreError, d)
               else
                 (case insertDoc (orders d) newId
                         \<lparr>accountId = userId, totalAmount = tot, shippingFee = fee,
                          orderAt = now, paidAt = None, status = Pending,
                          addressShip = reqAddressShip req,
                          transactionId = None, paymentCode = None\<rparr> of
                    None \<Rightarrow> (Inl DuplicateKey, d)
                  | Some os \<Rightarrow>
                      if insertManyFails fl then (Inl DatastoreError, d)
                      else if commitFails fl then (Inl DatastoreError, d)
                      else
                        (let d' = d\<lparr>flowers := fs, orders := os,
                                    orderItems := orderItems d @
                                      map (\<lambda>(fid, p, q). \<lparr>flowerId = fid, actualPrice = p,
                                                           quantity = q, orderId = newId\<rparr>) pushed\<rparr>
                         in if readBackFails fl then (Inl CannotAbortAfterCommit, d')
                            else (case getOrderById d' newId of
                                    Inl e \<Rightarrow> (Inl CannotAbortAfterCommit, d')
                                  | Inr res \<Rightarrow> (Inr res, d'))))))"

text \<open>
  \<open>updatePaymentStatus(orderId, transactionId)\<close>: sets \<open>paidAt\<close> to the clock, the
  status to paid and the transaction reference, whatever the order's status was.
\<close>

definition updatePaymentStatus :: "int \<Rightarrow> order collection \<Rightarrow> oid \<Rightarrow> oid \<Rightarrow> error + order collection" where
  "updatePaymentStatus now os i tid =
     (case findById os i of
        None \<Rightarrow> Inl OrderNotFound
      | Some _ \<Rightarrow> Inr (findByIdAndUpdate os i
                        (\<lambda>ord. ord\<lparr>paidAt := Some now, status := Paid, transactionId := Some tid\<rparr>)))"

section \<open>OrderItemService\<close>




section \<open>PaymentService\<close>

text \<open>
  The sources hold three versions of the class: the one of
  \<^verbatim>\<open>src/service/paymentService.js\<close>, and two later ones that follow each other in
  \<^verbatim>\<open>src/service/categoryService.js\<close>. \<open>createPaymentLink\<close> and
  \<open>handlePaymentReturn\<close> differ between them; \<open>handlePaymentWebhook\<close> is the same in
  the two versions that have it. Below, a name without suffix is the version of
  \<^verbatim>\<open>paymentService.js\<close>, and the suffixes \<open>_v2\<close> and \<open>_v3\<close> are the later ones in
  their order in the file.

  What \<open>createPaymentLink\<close> takes from outside: the clock, the code that
  \<open>generateUniquePaymentCode\<close> draws (as the string stored on the order), the \<open>_id\<close>
  of the new Transaction document, the environment variables, each set or not, and the
  gateway's \<open>createPaymentLink\<close>, which answers with a link or throws with a message.
\<close>

record linkRequest =
  lrOrderId :: "oid option"
  lrReturnUrl :: "string option"
  lrCancelUrl :: "string option"

record paymentData =
  pdOrderCode :: string
  pdAmount :: int
  pdDescription :: oid
  pdItems :: "(string \<times> int \<times> int) list"
  pdReturnUrl :: string
  pdCancelUrl :: string
  pdBuyerName :: string
  pdBuyerEmail :: string
  pdBuyerPhone :: string

record linkResponse =
  checkoutUrl :: string
  qrCode :: string
  paymentLinkId :: string

text \<open>\<open>a / b\<close> on two Numbers, kept as the pair of its operands.\<close>

datatype quotient = Quotient int int

record linkResult =
  lkCheckoutUrl :: string
  lkPaymentCode :: string
  lkTransactionId :: oid
  lkOrderId :: oid
  lkAmount :: quotient
  lkQrCode :: string
  lkPaymentLinkId :: string

text \<open>The later versions add \<open>orderInfo\<close> to the result.\<close>

record linkResultInfo = linkResult +
  lkCustomerName :: string
  lkCustomerEmail :: string
  lkItemCount :: nat
  lkDescription :: oid

record payEnv =
  envNow :: int
  envOrderCode :: string
  envTransactionId :: oid
  envSystemAccountId :: "oid option"
  envFrontendUrl :: "string option"
  envBaseUrl :: "string option"
  payOSCreatePaymentLink :: "paymentData \<Rightarrow> string + linkResponse"

text \<open>\<open>value || fallback\<close> on strings: a missing or empty string gives the fallback.\<close>

fun orDefault :: "string option \<Rightarrow> string \<Rightarrow> string" where
  "orDefault None dflt = dflt"
| "orDefault (Some u) dflt = (if u = [] then dflt else u)"

text \<open>A string or \<open>undefined\<close> inside a template literal.\<close>

fun interpolate :: "string option \<Rightarrow> string" where
  "interpolate None = ''undefined''"
| "interpolate (Some u) = u"

text \<open>The fallback of the later versions for \<open>SYSTEM_ACCOUNT_ID\<close>, as a number.\<close>

definition fallbackSystemAccount :: oid where
  "fallbackSystemAccount = 32294099679487944962527722518"

text \<open>
  The Order schema's unique sparse index on \<open>paymentCode\<close>: a write of a code that
  another order carries is rejected.
\<close>

definition paymentCodeTaken :: "order collection \<Rightarrow> oid \<Rightarrow> string \<Rightarrow> bool" where
  "paymentCodeTaken os i code = list_ex (\<lambda>(j, ord). j \<noteq> i \<and> paymentCode ord = Some code) os"

text \<open>
  The part the three versions of \<open>createPaymentLink\<close> share, from the new Transaction
  to the \<open>catch\<close>: the transaction is saved as pending, the order is given its
  reference and the code, and the gateway is called. When the gateway throws, the
  transaction is marked failed and the error is rethrown; the later versions
  (\<open>unsetCode\<close>) also \<open>$unset\<close> the order's \<open>paymentCode\<close> first.
\<close>

definition saveAndCallGateway ::
  "bool \<Rightarrow> payEnv \<Rightarrow> oid \<Rightarrow> db \<Rightarrow> oid \<Rightarrow> order \<Rightarrow> paymentData \<Rightarrow> (error + linkResponse) \<times> db" where
  "saveAndCallGateway unsetCode env toAcct d i ord pd =
     (case insertDoc (transactions d) (envTransactionId env)
             \<lparr>fromAccount = accountId ord, toAccount = toAcct, amount = totalAmount ord,
              transactionStatus = TxPending, transactionDate = envNow env\<rparr> of
        None \<Rightarrow> (Inl DuplicateKey, d)
      | Some ts \<Rightarrow>
          (let d1 = d\<lparr>transactions := ts\<rparr>
           in if paymentCodeTaken (orders d1) i (envOrderCode env) then (Inl DuplicateKey, d1)
              else
                (let d2 = d1\<lparr>orders := findByIdAndUpdate (orders d1) i
                             (\<lambda>x. x\<lparr>transactionId := Some (envTransactionId env),
                                     paymentCode := Some (envOrderCode env)\<rparr>)\<rparr>
                 in case payOSCreatePaymentLink env pd of
                      Inr resp \<Rightarrow> (Inr resp, d2)
                    | Inl msg \<Rightarrow>
                        (let d3 = d2\<lparr>transactions :=
                                      findByIdAndUpdate (transactions d2) (envTransactionId env)
                                        (\<lambda>t. t\<lparr>transactionStatus := TxFailed\<rparr>)\<rparr>
                         in (Inl (PaymentLinkCreationFailed msg),
                             if unsetCode
                             then d3\<lparr>orders := findByIdAndUpdate (orders d3) i
                                       (\<lambda>x. x\<lparr>paymentCode := None\<rparr>)\<rparr>
                             else d3)))))"

text \<open>
  The items sent to the gateway in the first version: \<open>populate('flowerId')\<close> puts the
  flower document, or null, in place of the reference, and reading \<open>name\<close> of null throws
  a TypeError. The price is \<open>Math.round(parseFloat(actualPrice) * 100)\<close>.
\<close>

definition gatewayItems :: "db \<Rightarrow> oid \<Rightarrow> (string \<times> int \<times> int) list option" where
  "gatewayItems d i =
     those (map (\<lambda>oi. map_option (\<lambda>f. (name f, quantity oi, jsMul (toDouble (actualPrice oi)) 100))
                         (findById (flowers d) (flowerId oi)))
                (filter (\<lambda>oi. orderId oi = i) (orderItems d)))"

text \<open>
  \<open>createPaymentLink(orderData)\<close> of \<^verbatim>\<open>paymentService.js\<close>. The checks are that the
  order exists and is pending; the order's \<open>paymentCode\<close> is not read. Without
  \<open>SYSTEM_ACCOUNT_ID\<close> the new transaction lacks its required \<open>toAccount\<close> and the save
  fails. The \<open>catch\<close> marks the transaction failed and leaves the order as it is.
\<close>

definition createPaymentLink :: "payEnv \<Rightarrow> db \<Rightarrow> linkRequest \<Rightarrow> (error + linkResult) \<times> db" where
  "createPaymentLink env d req =
     (case (case lrOrderId req of None \<Rightarrow> None
            | Some i \<Rightarrow> map_option (Pair i) (findById (orders d) i)) of
        None \<Rightarrow> (Inl OrderNotFound, d)
      | Some (i, ord) \<Rightarrow>
          if status ord \<noteq> Pending then (Inl OrderNotPending, d)
          else
            (case gatewayItems d i of
               None \<Rightarrow> (Inl (TypeError ''name''), d)
             | Some its \<Rightarrow>
                 (case findById (accounts d) (accountId ord) of
                    None \<Rightarrow> (Inl (TypeError ''fullName''), d)
                  | Some acct \<Rightarrow>
                      (let pd = \<lparr>pdOrderCode = envOrderCode env,
                                 pdAmount = jsMul (totalAmount ord) 100,
                                 pdDescription = i,
                                 pdItems = its,
                                 pdReturnUrl = orDefault (lrReturnUrl req)
                                   (interpolate (envFrontendUrl env) @ ''/payment/success''),
                                 pdCancelUrl = orDefault (lrCancelUrl req)
                                   (interpolate (envFrontendUrl env) @ ''/payment/cancel''),
                                 pdBuyerName = fullName acct,
                                 pdBuyerEmail = email acct,
                                 pdBuyerPhone = phone acct\<rparr>
                       in case envSystemAccountId env of
                            None \<Rightarrow> (Inl ValidationError, d)
                          | Some sys \<Rightarrow>
                              (case saveAndCallGateway False env sys d i ord pd of
                                 (Inl e, d') \<Rightarrow> (Inl e, d')
                               | (Inr resp, d') \<Rightarrow>
                                   (Inr \<lparr>lkCheckoutUrl = checkoutUrl resp,
                                         lkPaymentCode = envOrderCode env,
                                         lkTransactionId = envTransactionId env,
                                         lkOrderId = i,
                                         lkAmount = Quotient (pdAmount pd) 100,
                                         lkQrCode = qrCode resp,
                                         lkPaymentLinkId = paymentLinkId resp\<rparr>, d'))))))"

text \<open>
  The items of the third version, with its checks on each item in their order: the
  flower, its name, the quantity. The price is \<open>Math.round(parseFloat(actualPrice))\<close>.
  (The check of the price between them never fires: \<open>actualPrice\<close> is a Decimal128
  object, which is truthy and parses.)
\<close>

fun gatewayItems_v3 :: "flower collection \<Rightarrow> orderItem list \<Rightarrow> error + (string \<times> int \<times> int) list" where
  "gatewayItems_v3 fs [] = Inr []"
| "gatewayItems_v3 fs (oi # ois) =
     (case findById fs (flowerId oi) of
        None \<Rightarrow> Inl InvalidFlowerData
      | Some f \<Rightarrow>
          if name f = [] then Inl FlowerNameMissing
          else if quantity oi = 0 then Inl InvalidQuantity
          else (case gatewayItems_v3 fs ois of
                  Inl e \<Rightarrow> Inl e
                | Inr rest \<Rightarrow> Inr ((name f, quantity oi, toDouble (actualPrice oi)) # rest)))"

text \<open>
  The payment data of the later versions, with the amount each of them sends, and their
  result.
\<close>

definition paymentDataLater ::
  "payEnv \<Rightarrow> linkRequest \<Rightarrow> oid \<Rightarrow> account \<Rightarrow> int \<Rightarrow> (string \<times> int \<times> int) list \<Rightarrow> paymentData" where
  "paymentDataLater env req i acct amt its =
     \<lparr>pdOrderCode = envOrderCode env,
      pdAmount = amt,
      pdDescription = i,
      pdItems = its,
      pdReturnUrl = orDefault (lrReturnUrl req)
        (orDefault (envBaseUrl env) ''http://localhost:3000'' @ ''/api/payments/payment/success''),
      pdCancelUrl = orDefault (lrCancelUrl req)
        (orDefault (envBaseUrl env) ''http://localhost:3000'' @ ''/api/payments/payment/cancel''),
      pdBuyerName = orDefault (Some (fullName acct)) ''Customer'',
      pdBuyerEmail = email acct,
      pdBuyerPhone = phone acct\<rparr>"

definition linkResultLater ::
  "payEnv \<Rightarrow> oid \<Rightarrow> account \<Rightarrow> paymentData \<Rightarrow> linkResponse \<Rightarrow> linkResultInfo" where
  "linkResultLater env i acct pd resp =
     \<lparr>lkCheckoutUrl = checkoutUrl resp,
      lkPaymentCode = envOrderCode env,
      lkTransactionId = envTransactionId env,
      lkOrderId = i,
      lkAmount = Quotient (pdAmount pd) 100,
      lkQrCode = qrCode resp,
      lkPaymentLinkId = paymentLinkId resp,
      lkCustomerName = fullName acct,
      lkCustomerEmail = email acct,
      lkItemCount = length (pdItems pd),
      lkDescription = pdDescription pd\<rparr>"

text \<open>
  \<open>createPaymentLink(orderData)\<close> of the second version
  (\<^verbatim>\<open>categoryService.js\<close>, first PaymentService). After the checks of the first
  version it refuses an order that has a payment code ("Payment link already exists for
  this order"; an empty string is falsy) and an order without items, an item whose flower
  is gone makes it throw "Invalid flower data in order items", and the \<open>catch\<close> also
  clears the order's code.
\<close>

definition createPaymentLink_v2 :: "payEnv \<Rightarrow> db \<Rightarrow> linkRequest \<Rightarrow> (error + linkResultInfo) \<times> db" where
  "createPaymentLink_v2 env d req =
     (case lrOrderId req of
        None \<Rightarrow> (Inl OrderIdRequired, d)
      | Some i \<Rightarrow>
          (case findById (orders d) i of
             None \<Rightarrow> (Inl OrderNotFound, d)
           | Some ord \<Rightarrow>
               if status ord \<noteq> Pending then (Inl OrderNotPending, d)
               else if paymentCode ord \<noteq> None \<and> paymentCode ord \<noteq> Some [] then
                 (Inl PaymentLinkAlreadyExists, d)
               else if filter (\<lambda>oi. orderId oi = i) (orderItems d) = [] then (Inl NoOrderItems, d)
               else
                 (case gatewayItems d i of
                    None \<Rightarrow> (Inl InvalidFlowerData, d)
                  | Some its \<Rightarrow>
                      (case findById (accounts d) (accountId ord) of
                         None \<Rightarrow> (Inl (TypeError ''fullName''), d)
                       | Some acct \<Rightarrow>
                           (let pd = paymentDataLater env req i acct (jsMul (totalAmount ord) 100) its
                            in case saveAndCallGateway True env
                                      (case envSystemAccountId env of
                                         None \<Rightarrow> fallbackSystemAccount | Some sys \<Rightarrow> sys)
                                      d i ord pd of
                                 (Inl e, d') \<Rightarrow> (Inl e, d')
                               | (Inr resp, d') \<Rightarrow> (Inr (linkResultLater env i acct pd resp), d'))))))"

text \<open>
  \<open>createPaymentLink(orderData)\<close> of the third version
  (\<^verbatim>\<open>categoryService.js\<close>, second PaymentService): the second version with the
  per-item checks and the amount sent as \<open>Math.round(orderTotal)\<close>.
\<close>

definition createPaymentLink_v3 :: "payEnv \<Rightarrow> db \<Rightarrow> linkRequest \<Rightarrow> (error + linkResultInfo) \<times> db" where
  "createPaymentLink_v3 env d req =
     (case lrOrderId req of
        None \<Rightarrow> (Inl OrderIdRequired, d)
      | Some i \<Rightarrow>
          (case findById (orders d) i of
             None \<Rightarrow> (Inl OrderNotFound, d)
           | Some ord \<Rightarrow>
               if status ord \<noteq> Pending then (Inl OrderNotPending, d)
               else if paymentCode ord \<noteq> None \<and> paymentCode ord \<noteq> Some [] then
                 (Inl PaymentLinkAlreadyExists, d)
               else if filter (\<lambda>oi. orderId oi = i) (orderItems d) = [] then (Inl NoOrderItems, d)
               else
                 (case gatewayItems_v3 (flowers d) (filter (\<lambda>oi. orderId oi = i) (orderItems d)) of
                    Inl e \<Rightarrow> (Inl e, d)
                  | Inr its \<Rightarrow>
                      (case findById (accounts d) (accountId ord) of
                         None \<Rightarrow> (Inl (TypeError ''fullName''), d)
                       | Some acct \<Rightarrow>
                           (let pd = paymentDataLater env req i acct (totalAmount ord) its
                            in case saveAndCallGateway True env
                                      (case envSystemAccountId env of
                                         None \<Rightarrow> fallbackSystemAccount | Some sys \<Rightarrow> sys)
                                      d i ord pd of
                                 (Inl e, d') \<Rightarrow> (Inl e, d')
                               | (Inr resp, d') \<Rightarrow> (Inr (linkResultLater env i acct pd resp), d'))))))"

text \<open>
  The query of the redirect, each parameter present or not, and the result object of
  \<open>handlePaymentReturn\<close>, whose \<open>status\<close> is absent in the default result.
\<close>

record returnQuery =
  qCode :: "string option"
  qId :: "string option"
  qCancel :: "string option"
  qStatus :: "string option"
  qOrderCode :: "string option"

record returnResult =
  rrSuccess :: bool
  rrMessage :: string
  rrOrderCode :: string
  rrOrderId :: oid
  rrStatus :: "string option"

text \<open>
  \<open>handlePaymentReturn(queryParams)\<close> of \<^verbatim>\<open>paymentService.js\<close>:
  \<open>orderCode.toString()\<close> throws a TypeError
  when the parameter is missing. The paid branch and the cancel branch write the
  transaction's status without reading it.
\<close>

definition handlePaymentReturn :: "int \<Rightarrow> db \<Rightarrow> returnQuery \<Rightarrow> (error + returnResult) \<times> db" where
  "handlePaymentReturn now d q =
     (case qOrderCode q of
        None \<Rightarrow> (Inl (TypeError ''toString''), d)
      | Some oc \<Rightarrow>
          (case findOneByPaymentCode (orders d) oc of
             None \<Rightarrow> (Inl OrderNotFoundForPaymentCode, d)
           | Some (i, ord) \<Rightarrow>
               (let dflt = \<lparr>rrSuccess = False, rrMessage = ''Payment failed'',
                            rrOrderCode = oc, rrOrderId = i, rrStatus = None\<rparr>
                in if qCode q = Some ''00'' \<and> qStatus q = Some ''PAID'' then
                     (case findTransaction (transactions d) (transactionId ord) of
                        None \<Rightarrow> (Inr dflt, d)
                      | Some (tid, t) \<Rightarrow>
                          (let d1 = d\<lparr>transactions := findByIdAndUpdate (transactions d) tid
                                         (\<lambda>t. t\<lparr>transactionStatus := TxCompleted\<rparr>)\<rparr>
                           in case updatePaymentStatus now (orders d1) i tid of
                                Inl e \<Rightarrow> (Inl e, d1)
                              | Inr os \<Rightarrow>
                                  (Inr \<lparr>rrSuccess = True, rrMessage = ''Payment successful'',
                                        rrOrderCode = oc, rrOrderId = i, rrStatus = Some ''PAID''\<rparr>,
                                   d1\<lparr>orders := os\<rparr>)))
                   else if qCancel q = Some ''true'' then
                     (let res = \<lparr>rrSuccess = False, rrMessage = ''Payment cancelled'',
                                 rrOrderCode = oc, rrOrderId = i, rrStatus = Some ''CANCELLED''\<rparr>
                      in case findTransaction (transactions d) (transactionId ord) of
                           None \<Rightarrow> (Inr res, d)
                         | Some (tid, t) \<Rightarrow>
                             (Inr res, d\<lparr>transactions := findByIdAndUpdate (transactions d) tid
                                            (\<lambda>t. t\<lparr>transactionStatus := TxCancelled\<rparr>)\<rparr>))
                   else (Inr dflt, d))))"

text \<open>
  \<open>handlePaymentReturn(queryParams)\<close> of the two later versions, which differ only in
  the read preference of the query. A missing or empty order code and a paid redirect
  whose order has no transaction throw. The paid branch reads the transaction's status
  first ("Prevent double processing"): when it is completed, nothing is written and the
  result says "Payment already completed". The cancel branch, taken for
  \<open>cancel = 'true'\<close> or status CANCELLED, writes unless the transaction is already
  cancelled; any other redirect marks a pending transaction failed.
\<close>

definition handlePaymentReturn_v2 :: "int \<Rightarrow> db \<Rightarrow> returnQuery \<Rightarrow> (error + returnResult) \<times> db" where
  "handlePaymentReturn_v2 now d q =
     (case qOrderCode q of
        None \<Rightarrow> (Inl OrderCodeMissing, d)
      | Some oc \<Rightarrow>
          if oc = [] then (Inl OrderCodeMissing, d)
          else
            (case findOneByPaymentCode (orders d) oc of
               None \<Rightarrow> (Inl (OrderNotFoundFor oc), d)
             | Some (i, ord) \<Rightarrow>
                 if qCode q = Some ''00'' \<and> qStatus q = Some ''PAID'' then
                   (case findTransaction (transactions d) (transactionId ord) of
                      None \<Rightarrow> (Inl TransactionNotFound, d)
                    | Some (tid, t) \<Rightarrow>
                        if transactionStatus t = TxCompleted then
                          (Inr \<lparr>rrSuccess = True, rrMessage = ''Payment already completed'',
                                rrOrderCode = oc, rrOrderId = i, rrStatus = Some ''PAID''\<rparr>, d)
                        else
                          (let d1 = d\<lparr>transactions := findByIdAndUpdate (transactions d) tid
                                         (\<lambda>t. t\<lparr>transactionStatus := TxCompleted\<rparr>)\<rparr>
                           in case updatePaymentStatus now (orders d1) i tid of
                                Inl e \<Rightarrow> (Inl e, d1)
                              | Inr os \<Rightarrow>
                                  (Inr \<lparr>rrSuccess = True,
                                        rrMessage = ''Payment completed successfully'',
                                        rrOrderCode = oc, rrOrderId = i, rrStatus = Some ''PAID''\<rparr>,
                                   d1\<lparr>orders := os\<rparr>)))
                 else if qCancel q = Some ''true'' \<or> qStatus q = Some ''CANCELLED'' then
                   (let res = \<lparr>rrSuccess = False, rrMessage = ''Payment was cancelled by user'',
                               rrOrderCode = oc, rrOrderId = i, rrStatus = Some ''CANCELLED''\<rparr>
                    in case findTransaction (transactions d) (transactionId ord) of
                         None \<Rightarrow> (Inr res, d)
                       | Some (tid, t) \<Rightarrow>
                           if transactionStatus t \<noteq> TxCancelled then
                             (Inr res, d\<lparr>transactions := findByIdAndUpdate (transactions d) tid
                                            (\<lambda>t. t\<lparr>transactionStatus := TxCancelled\<rparr>)\<rparr>)
                           else (Inr res, d))
                 else
                   (let res = \<lparr>rrSuccess = False,
                               rrMessage = ''Payment failed with code: '' @ interpolate (qCode q),
                               rrOrderCode = oc, rrOrderId = i, rrStatus = Some ''FAILED''\<rparr>
                    in case findTransaction (transactions d) (transactionId ord) of
                         None \<Rightarrow> (Inr res, d)
                       | Some (tid, t) \<Rightarrow>
                           if transactionStatus t = TxPending then
                             (Inr res, d\<lparr>transactions := findByIdAndUpdate (transactions d) tid
                                            (\<lambda>t. t\<lparr>transactionStatus := TxFailed\<rparr>)\<rparr>)
                           else (Inr res, d))))"

text \<open>
  The webhook body, the three ways the gateway's \<open>verifyPaymentWebhookData\<close> can end
  (it throws, it returns a falsy value, it returns the data), and the result object.
\<close>

record webhookData =
  whOrderCode :: "string option"
  whStatus :: "string option"
  whAmount :: int
  whDescription :: string

datatype verifyOutcome = VerifyThrows string | VerifyFalsy | VerifyOk

record webhookResult =
  wrSuccess :: bool
  wrMessage :: string
  wrOrderCode :: string
  wrStatus :: txStatus

text \<open>
  \<open>handlePaymentWebhook(webhookData)\<close>, the same in the first and the second
  version; the third has none. Neither branch reads the transaction's status before it
  writes. With no transaction the \<open>if\<close> is skipped and
  the \<open>return\<close> reads \<open>transactionStatus\<close> of null: a TypeError. The returned
  \<open>status\<close> is that of the document \<open>findById\<close> returned; \<open>findByIdAndUpdate\<close>
  writes the datastore, not that document.
\<close>

definition handlePaymentWebhook ::
  "(webhookData \<Rightarrow> verifyOutcome) \<Rightarrow> int \<Rightarrow> db \<Rightarrow> webhookData \<Rightarrow> (error + webhookResult) \<times> db" where
  "handlePaymentWebhook verifyPaymentWebhookData now d w =
     (case verifyPaymentWebhookData w of
        VerifyThrows msg \<Rightarrow> (Inl (GatewayThrew msg), d)
      | VerifyFalsy \<Rightarrow> (Inl InvalidWebhookSignature, d)
      | VerifyOk \<Rightarrow>
          (case whOrderCode w of
             None \<Rightarrow> (Inl (TypeError ''toString''), d)
           | Some oc \<Rightarrow>
               (case findOneByPaymentCode (orders d) oc of
                  None \<Rightarrow> (Inl OrderNotFoundForPaymentCode, d)
                | Some (i, ord) \<Rightarrow>
                    (case findTransaction (transactions d) (transactionId ord) of
                       None \<Rightarrow> (Inl (TypeError ''transactionStatus''), d)
                     | Some (tid, t) \<Rightarrow>
                         (let res = \<lparr>wrSuccess = True,
                                     wrMessage = ''Webhook processed successfully'',
                                     wrOrderCode = oc, wrStatus = transactionStatus t\<rparr>
                          in if whStatus w = Some ''PAID'' then
                               (case updatePaymentStatus now (orders d) i tid of
                                  Inl e \<Rightarrow> (Inl e, d)
                                | Inr os \<Rightarrow>
                                    (Inr res,
                                     d\<lparr>orders := os,
                                       transactions := findByIdAndUpdate (transactions d) tid
                                         (\<lambda>t. t\<lparr>transactionStatus := TxCompleted\<rparr>)\<rparr>))
                             else if whStatus w = Some ''CANCELLED'' then
                               (Inr res,
                                d\<lparr>transactions := findByIdAndUpdate (transactions d) tid
                                     (\<lambda>t. t\<lparr>transactionStatus := TxCancelled\<rparr>)\<rparr>)
                             else
                               (Inr res,
                                d\<lparr>transactions := findByIdAndUpdate (transactions d) tid
                                     (\<lambda>t. t\<lparr>transactionStatus := TxFailed\<rparr>)\<rparr>))))))"




section \<open>PaymentTimeoutService\<close>

definition PAYMENT_TIMEOUT_MINUTES :: int where
  "PAYMENT_TIMEOUT_MINUTES = 10"

text \<open>
  \<open>cancelExpiredOrder(order)\<close>, on the order document the query returned: the order
  with that \<open>_id\<close> is set to cancelled, and the transaction the document refers to, if
  any, as well.
\<close>

definition cancelExpiredOrder :: "db \<Rightarrow> oid \<times> order \<Rightarrow> db" where
  "cancelExpiredOrder d io =
     (let d1 = d\<lparr>orders := findByIdAndUpdate (orders d) (fst io) (\<lambda>ord. ord\<lparr>status := Cancelled\<rparr>)\<rparr>
      in case transactionId (snd io) of
           None \<Rightarrow> d1
         | Some tid \<Rightarrow>
             d1\<lparr>transactions := findByIdAndUpdate (transactions d1) tid
                   (\<lambda>t. t\<lparr>transactionStatus := TxCancelled\<rparr>)\<rparr>)"

text \<open>The query of \<open>checkAndCancelExpiredPayments\<close>.\<close>

definition expiredOrders :: "int \<Rightarrow> order collection \<Rightarrow> (oid \<times> order) list" where
  "expiredOrders now os =
     filter (\<lambda>(i, ord). status ord = Pending \<and> paymentCode ord \<noteq> None
                        \<and> orderAt ord < now - PAYMENT_TIMEOUT_MINUTES * 60 * 1000) os"

text \<open>\<open>checkAndCancelExpiredPayments\<close>: one tick, the query and then the loop.\<close>

definition checkAndCancelExpiredPayments :: "int \<Rightarrow> db \<Rightarrow> db" where
  "checkAndCancelExpiredPayments now d =
     (let expired = expiredOrders now (orders d)
      in if length expired = 0 then d else foldl cancelExpiredOrder d expired)"

section \<open>Notions used by the properties\<close>

text \<open>The price of a flower in a collection (0 when it is not there).\<close>

definition priceIn :: "flower collection \<Rightarrow> oid \<Rightarrow> int" where
  "priceIn fs fid = (case findById fs fid of None \<Rightarrow> 0 | Some f \<Rightarrow> price f)"

text \<open>The quantity a request asks of one flower, over all its line items.\<close>

definition requested :: "itemReq list \<Rightarrow> oid \<Rightarrow> int" where
  "requested its fid = sum_list (map reqQuantity (filter (\<lambda>it. reqFlowerId it = fid) its))"

text \<open>The OrderItem documents of a request, each with the flower's price as its snapshot.\<close>

definition snapshotItems :: "flower collection \<Rightarrow> oid \<Rightarrow> itemReq list \<Rightarrow> orderItem list" where
  "snapshotItems fs newId its =
     map (\<lambda>it. \<lparr>flowerId = reqFlowerId it, actualPrice = priceIn fs (reqFlowerId it),
                quantity = reqQuantity it, orderId = newId\<rparr>) its"

text \<open>The sum of snapshot times quantity over order items, in exact arithmetic.\<close>

definition itemsTotal :: "orderItem list \<Rightarrow> int" where
  "itemsTotal ois = sum_list (map (\<lambda>oi. actualPrice oi * quantity oi) ois)"

text \<open>The OrderItem documents of an order.\<close>

definition itemsOfOrder :: "db \<Rightarrow> oid \<Rightarrow> orderItem list" where
  "itemsOfOrder d i = filter (\<lambda>oi. orderId oi = i) (orderItems d)"

text \<open>The shipping fee of a request whose fee is a Number or absent.\<close>

fun feeNumber :: "fee option \<Rightarrow> int option" where
  "feeNumber None = Some 0"
| "feeNumber (Some (FeeNumber x)) = Some x"
| "feeNumber (Some (FeeString s)) = None"

text \<open>The transaction status a webhook stores for a gateway status: the \<open>switch\<close>.\<close>

definition storedStatus :: "string option \<Rightarrow> txStatus" where
  "storedStatus s =
     (if s = Some ''PAID'' then TxCompleted
      else if s = Some ''CANCELLED'' then TxCancelled else TxFailed)"


section \<open>Example data\<close>

definition noFaults :: faults where
  "noFaults = \<lparr>flowerUpdateFails = (\<lambda>_. False), orderSaveFails = False,
                insertManyFails = False, commitFails = False, readBackFails = False\<rparr>"

text \<open>
  A runtime for the examples: \<open>String(n)\<close> writes an integer in decimal digits, and the
  cast reads an optionally signed string of decimal digits; any other string is a cast
  error here.
\<close>

definition digitChars :: "char list" where
  "digitChars = ''0123456789''"

fun decimal :: "nat \<Rightarrow> string" where
  "decimal n = (if n < 10 then [digitChars ! n] else decimal (n div 10) @ [digitChars ! (n mod 10)])"

declare decimal.simps [simp del]

fun digitValue :: "char \<Rightarrow> nat option" where
  "digitValue c =
     (case find (\<lambda>(k, x). x = c) (zip [0 ..< 10] digitChars) of
        None \<Rightarrow> None | Some (k, x) \<Rightarrow> Some k)"

fun readDigits :: "nat \<Rightarrow> string \<Rightarrow> nat option" where
  "readDigits n [] = Some n"
| "readDigits n (c # cs) =
     (case digitValue c of None \<Rightarrow> None | Some k \<Rightarrow> readDigits (10 * n + k) cs)"

definition readNumber :: "string \<Rightarrow> int option" where
  "readNumber s =
     (case s of
        [] \<Rightarrow> None
      | c # cs \<Rightarrow>
          if c = CHR ''-'' then (if cs = [] then None else map_option (\<lambda>n. - int n) (readDigits 0 cs))
          else if c = CHR ''+'' then (if cs = [] then None else map_option int (readDigits 0 cs))
          else map_option int (readDigits 0 s))"

definition digits :: runtime where
  "digits = \<lparr>numberToString = (\<lambda>n. if n < 0 then CHR ''-'' # decimal (nat (- n)) else decimal (nat n)),
             castNumber = readNumber\<rparr>"

text \<open>A shop with five roses at 75000 and no lily, and one customer.\<close>

definition shop :: db where
  "shop = \<lparr>flowers = [(1, \<lparr>name = ''Rose'', price = 75000, stock = 5\<rparr>),
                       (2, \<lparr>name = ''Lily'', price = 20000, stock = 0\<rparr>)],
           accounts = [(7, \<lparr>fullName = ''An'', email = ''an@example.com'', phone = ''0900''\<rparr>)],
           orders = [], orderItems = [], transactions = []\<rparr>"

definition twoRoses :: orderData where
  "twoRoses = \<lparr>items = [\<lparr>reqFlowerId = 1, reqQuantity = 2\<rparr>],
               reqAddressShip = ''12 Hoa St'', reqShippingFee = None\<rparr>"

definition rosesAndLily :: orderData where
  "rosesAndLily = \<lparr>items = [\<lparr>reqFlowerId = 1, reqQuantity = 2\<rparr>, \<lparr>reqFlowerId = 2, reqQuantity = 1\<rparr>],
                   reqAddressShip = ''12 Hoa St'', reqShippingFee = Some (FeeNumber 0)\<rparr>"

text \<open>
  The same shop with roses priced at the largest odd double, \<open>2^53 - 1\<close>, and a request
  for three of them.
\<close>

definition dearShop :: db where
  "dearShop = shop\<lparr>flowers := [(1, \<lparr>name = ''Rose'', price = 9007199254740991, stock = 5\<rparr>)]\<rparr>"

definition threeRoses :: orderData where
  "threeRoses = \<lparr>items = [\<lparr>reqFlowerId = 1, reqQuantity = 3\<rparr>],
                 reqAddressShip = ''12 Hoa St'', reqShippingFee = None\<rparr>"

text \<open>
  Order 10 of customer 7, created at time 0 for two roses, with payment code 123456 and
  transaction 20, in the given order and transaction status.
\<close>

definition orderTen :: "orderStatus \<Rightarrow> int option \<Rightarrow> order" where
  "orderTen st paid = \<lparr>accountId = 7, totalAmount = 150000, shippingFee = 0, orderAt = 0,
                        paidAt = paid, status = st, addressShip = ''12 Hoa St'',
                        transactionId = Some 20, paymentCode = Some ''123456''\<rparr>"

definition txTwenty :: "txStatus \<Rightarrow> transaction" where
  "txTwenty st = \<lparr>fromAccount = 7, toAccount = 99, amount = 150000,
                  transactionStatus = st, transactionDate = 0\<rparr>"

definition shopWith :: "order \<Rightarrow> transaction \<Rightarrow> db" where
  "shopWith ord t =
     \<lparr>flowers = [(1, \<lparr>name = ''Rose'', price = 75000, stock = 3\<rparr>),
                 (2, \<lparr>name = ''Lily'', price = 20000, stock = 0\<rparr>)],
      accounts = [(7, \<lparr>fullName = ''An'', email = ''an@example.com'', phone = ''0900''\<rparr>)],
      orders = [(10, ord)],
      orderItems = [\<lparr>flowerId = 1, actualPrice = 75000, quantity = 2, orderId = 10\<rparr>],
      transactions = [(20, t)]\<rparr>"

definition paidQuery :: returnQuery where
  "paidQuery = \<lparr>qCode = Some ''00'', qId = Some ''link1'', qCancel = Some ''false'',
                qStatus = Some ''PAID'', qOrderCode = Some ''123456''\<rparr>"

definition cancelQuery :: returnQuery where
  "cancelQuery = \<lparr>qCode = Some ''00'', qId = Some ''link1'', qCancel = Some ''true'',
                  qStatus = Some ''CANCELLED'', qOrderCode = Some ''123456''\<rparr>"

definition hook :: "string \<Rightarrow> webhookData" where
  "hook st = \<lparr>whOrderCode = Some ''123456'', whStatus = Some st, whAmount = 150000,
              whDescription = ''order 10''\<rparr>"


text \<open>The shop after order 10 was created and before any payment link was asked for.\<close>

definition unpaidShop :: db where
  "unpaidShop =
     (shopWith ((orderTen Pending None)\<lparr>transactionId := None, paymentCode := None\<rparr>)
        (txTwenty TxPending))\<lparr>transactions := []\<rparr>"



text \<open>
  A signature check that accepts every webhook, one that returns a falsy value, and one
  that throws with a text of the library's own.
\<close>

definition genuine :: "webhookData \<Rightarrow> verifyOutcome" where
  "genuine w = VerifyOk"



definition linkEnv :: "(string + linkResponse) \<Rightarrow> payEnv" where
  "linkEnv answer = \<lparr>envNow = 5000, envOrderCode = ''654321'', envTransactionId = 21,
                     envSystemAccountId = Some 99,
                     envFrontendUrl = Some ''https://shop.example'', envBaseUrl = None,
                     payOSCreatePaymentLink = (\<lambda>_. answer)\<rparr>"

definition linkOk :: linkResponse where
  "linkOk = \<lparr>checkoutUrl = ''https://pay.example/654321'', qrCode = ''qr'', paymentLinkId = ''link2''\<rparr>"

definition linkReq :: linkRequest where
  "linkReq = \<lparr>lrOrderId = Some 10, lrReturnUrl = None, lrCancelUrl = None\<rparr>"

section \<open>Facts about the datastore operations\<close>

lemma findById_update:
  "findById (findByIdAndUpdate c i f) j =
     (if j = i then map_option f (findById c i) else findById c j)"
  by (induction c) (auto simp: findById_def findByIdAndUpdate_def)

lemma ids_update: "map fst (findByIdAndUpdate c i f) = map fst c"
  by (induction c) (auto simp: findByIdAndUpdate_def)

lemma findById_insertDoc: "insertDoc c i x = Some c' \<Longrightarrow> findById c' i = Some x"
  by (auto simp: insertDoc_def findById_def map_of_eq_None_iff [symmetric] map_add_def
      split: if_splits)

lemma insertDoc_fresh: "i \<notin> set (map fst c) \<Longrightarrow> insertDoc c i x = Some (c @ [(i, x)])"
  by (simp add: insertDoc_def)

lemma priceIn_update_stock:
  "priceIn (findByIdAndUpdate fs i (\<lambda>g. g\<lparr>stock := h g\<rparr>)) j = priceIn fs j"
  by (cases "findById fs i") (auto simp: priceIn_def findById_update)

section \<open>Facts about Number arithmetic\<close>

text \<open>Up to \<open>2^53\<close> in magnitude, sums and products of Numbers are exact.\<close>

lemma toDouble_exact: "\<bar>x\<bar> \<le> 9007199254740992 \<Longrightarrow> toDouble x = x"
  by (simp add: toDouble_def)

lemma jsAdd_exact: "\<bar>x + y\<bar> \<le> 9007199254740992 \<Longrightarrow> jsAdd x y = x + y"
  by (simp add: jsAdd_def toDouble_exact)

lemma jsMul_exact: "\<bar>x * y\<bar> \<le> 9007199254740992 \<Longrightarrow> jsMul x y = x * y"
  by (simp add: jsMul_def toDouble_exact)

text \<open>Beyond, they round: three times \<open>2^53 - 1\<close> ends in 2, not in 3.\<close>

lemma jsMul_rounds: "jsMul 9007199254740991 3 = 27021597764222972"
  by (simp add: jsMul_def toDouble_def roundHalfEven_def ulp.simps Let_def)

section \<open>Order creation\<close>

text \<open>The loop over a list of items is the loop over its front, then over its rest.\<close>

lemma reserveItems_append:
  "reserveItems fl fs (pre @ post) amt acc =
     (case reserveItems fl fs pre amt acc of
        Inl e \<Rightarrow> Inl e
      | Inr (fs', amt', acc') \<Rightarrow> reserveItems fl fs' post amt' acc')"
  by (induction pre arbitrary: fs amt acc) (auto split: option.splits)

text \<open>
  What holds of the loop when it ends without an error, whatever the numbers: the ids
  and prices of the flowers are as before, and the pushed items are the requested ones with
  the prices as snapshots.
\<close>

lemma reserveItems_pushed:
  "reserveItems fl fs its amt acc = Inr (fs', amt', acc') \<Longrightarrow>
     map fst fs' = map fst fs
   \<and> (\<forall>fid. priceIn fs' fid = priceIn fs fid)
   \<and> acc' = acc @ map (\<lambda>it. (reqFlowerId it, priceIn fs (reqFlowerId it), reqQuantity it)) its"
proof (induction its arbitrary: fs amt acc)
  case Nil
  then show ?case by simp
next
  case (Cons it its)
  from Cons.prems obtain f where f: "findById fs (reqFlowerId it) = Some f"
    by (auto split: option.splits)
  let ?fs1 = "findByIdAndUpdate fs (reqFlowerId it)
                (\<lambda>g. g\<lparr>stock := jsAdd (stock g) (- reqQuantity it)\<rparr>)"
  from Cons.prems f have run:
    "reserveItems fl ?fs1 its (jsAdd amt (jsMul (price f) (reqQuantity it)))
        (acc @ [(reqFlowerId it, price f, reqQuantity it)]) = Inr (fs', amt', acc')"
    by (auto split: if_splits)
  note ih = Cons.IH [OF run]
  have p: "priceIn fs (reqFlowerId it) = price f"
    using f by (simp add: priceIn_def)
  from ih p show ?case
    by (simp add: ids_update priceIn_update_stock)
qed

text \<open>
  The stocks after the loop, when no quantity is negative and no stock of a requested
  flower is above \<open>2^53\<close>: each is down by exactly what the items ask of it.
\<close>

lemma reserveItems_stock:
  "reserveItems fl fs its amt acc = Inr (fs', amt', acc') \<Longrightarrow>
   \<forall>it\<in>set its. 0 \<le> reqQuantity it \<Longrightarrow>
   \<forall>it\<in>set its. \<forall>f. findById fs (reqFlowerId it) = Some f \<longrightarrow> stock f \<le> 9007199254740992 \<Longrightarrow>
   findById fs' fid =
     map_option (\<lambda>f. f\<lparr>stock := stock f - requested its fid\<rparr>) (findById fs fid)"
proof (induction its arbitrary: fs amt acc)
  case Nil
  then show ?case
    by (auto simp: requested_def option.map_ident)
next
  case (Cons it its)
  from Cons.prems(1) obtain f where f: "findById fs (reqFlowerId it) = Some f"
    by (auto split: option.splits)
  let ?q = "reqQuantity it"
  let ?fs1 = "findByIdAndUpdate fs (reqFlowerId it) (\<lambda>g. g\<lparr>stock := jsAdd (stock g) (- ?q)\<rparr>)"
  from Cons.prems(1) f have enough: "?q \<le> stock f"
    and run: "reserveItems fl ?fs1 its (jsAdd amt (jsMul (price f) ?q))
        (acc @ [(reqFlowerId it, price f, ?q)]) = Inr (fs', amt', acc')"
    by (auto split: if_splits)
  from Cons.prems(2,3) f have q: "0 \<le> ?q" and top: "stock f \<le> 9007199254740992"
    by auto
  from enough q top have exact: "jsAdd (stock f) (- ?q) = stock f - ?q"
    by (simp add: jsAdd_exact)
  have bound: "\<forall>x\<in>set its. \<forall>g. findById ?fs1 (reqFlowerId x) = Some g \<longrightarrow> stock g \<le> 9007199254740992"
    using Cons.prems(3) f exact q top by (auto simp: findById_update)
  from Cons.prems(2) have "\<forall>x\<in>set its. 0 \<le> reqQuantity x"
    by simp
  note ih = Cons.IH [OF run this bound]
  show ?case
    using ih f exact
    by (cases "findById fs fid") (auto simp: findById_update requested_def algebra_simps)
qed

text \<open>
  The amount after the loop, when no price and no quantity is negative and the exact sum
  stays within \<open>2^53\<close>: the amount has grown by exactly the line totals.
\<close>

lemma reserveItems_amount:
  "reserveItems fl fs its amt acc = Inr (fs', amt', acc') \<Longrightarrow>
   \<forall>it\<in>set its. 0 \<le> reqQuantity it \<and> 0 \<le> priceIn fs (reqFlowerId it) \<Longrightarrow>
   0 \<le> amt \<Longrightarrow>
   amt + (\<Sum>it\<leftarrow>its. priceIn fs (reqFlowerId it) * reqQuantity it) \<le> 9007199254740992 \<Longrightarrow>
   amt' = amt + (\<Sum>it\<leftarrow>its. priceIn fs (reqFlowerId it) * reqQuantity it)"
proof (induction its arbitrary: fs amt acc)
  case Nil
  then show ?case by simp
next
  case (Cons it its)
  from Cons.prems(1) obtain f where f: "findById fs (reqFlowerId it) = Some f"
    by (auto split: option.splits)
  let ?q = "reqQuantity it"
  let ?fs1 = "findByIdAndUpdate fs (reqFlowerId it) (\<lambda>g. g\<lparr>stock := jsAdd (stock g) (- ?q)\<rparr>)"
  let ?rest = "\<Sum>x\<leftarrow>its. priceIn fs (reqFlowerId x) * reqQuantity x"
  from Cons.prems(1) f have run:
    "reserveItems fl ?fs1 its (jsAdd amt (jsMul (price f) ?q))
        (acc @ [(reqFlowerId it, price f, ?q)]) = Inr (fs', amt', acc')"
    by (auto split: if_splits)
  have p: "priceIn fs (reqFlowerId it) = price f"
    using f by (simp add: priceIn_def)
  from Cons.prems(2) p have line: "0 \<le> price f * ?q"
    by simp
  have rest: "0 \<le> ?rest"
    using Cons.prems(2) by (intro sum_list_nonneg) auto
  from Cons.prems(4) p have total: "amt + price f * ?q + ?rest \<le> 9007199254740992"
    by simp
  from line rest total Cons.prems(3) have mul: "jsMul (price f) ?q = price f * ?q"
    by (intro jsMul_exact) simp
  from line rest total Cons.prems(3) have add: "jsAdd amt (price f * ?q) = amt + price f * ?q"
    by (intro jsAdd_exact) simp
  have same: "(\<Sum>x\<leftarrow>its. priceIn ?fs1 (reqFlowerId x) * reqQuantity x) = ?rest"
    by (simp add: priceIn_update_stock)
  have "amt' = (amt + price f * ?q)
                 + (\<Sum>x\<leftarrow>its. priceIn ?fs1 (reqFlowerId x) * reqQuantity x)"
  proof (rule Cons.IH)
    show "reserveItems fl ?fs1 its (amt + price f * ?q)
            (acc @ [(reqFlowerId it, price f, ?q)]) = Inr (fs', amt', acc')"
      using run mul add by simp
    show "\<forall>x\<in>set its. 0 \<le> reqQuantity x \<and> 0 \<le> priceIn ?fs1 (reqFlowerId x)"
      using Cons.prems(2) by (simp add: priceIn_update_stock)
    show "0 \<le> amt + price f * ?q"
      using line Cons.prems(3) by simp
    show "amt + price f * ?q + (\<Sum>x\<leftarrow>its. priceIn ?fs1 (reqFlowerId x) * reqQuantity x)
            \<le> 9007199254740992"
      using total same by simp
  qed
  with same p show ?case
    by simp
qed

text \<open>An item whose flower is missing, or whose stock write fails, makes the loop fail.\<close>

lemma reserveItems_missing:
  "\<exists>it\<in>set its. findById fs (reqFlowerId it) = None \<Longrightarrow> isl (reserveItems fl fs its amt acc)"
proof (induction its arbitrary: fs amt acc)
  case Nil
  then show ?case by simp
next
  case (Cons it its)
  show ?case
  proof (cases "findById fs (reqFlowerId it)")
    case None
    then show ?thesis by simp
  next
    case (Some f)
    with Cons.prems obtain x where x: "x \<in> set its" "findById fs (reqFlowerId x) = None"
      by auto
    with Some have "findById (findByIdAndUpdate fs (reqFlowerId it)
                 (\<lambda>g. g\<lparr>stock := jsAdd (stock g) (- reqQuantity it)\<rparr>)) (reqFlowerId x) = None"
      by (auto simp: findById_update)
    with x(1) have "\<exists>x\<in>set its. findById (findByIdAndUpdate fs (reqFlowerId it)
                 (\<lambda>g. g\<lparr>stock := jsAdd (stock g) (- reqQuantity it)\<rparr>)) (reqFlowerId x) = None"
      by blast
    from Cons.IH [OF this] Some show ?thesis
      by simp
  qed
qed

lemma reserveItems_update_fails:
  "\<exists>it\<in>set its. flowerUpdateFails fl (reqFlowerId it) \<Longrightarrow> isl (reserveItems fl fs its amt acc)"
  by (induction its arbitrary: fs amt acc) (auto split: option.splits)

lemma reserveItems_short:
  assumes "its = pre @ it # post"
    and "reserveItems fl fs pre amt acc = Inr (fs', amt', acc')"
    and "findById fs' (reqFlowerId it) = Some f"
    and "stock f < reqQuantity it"
  shows "isl (reserveItems fl fs its amt acc)"
  using assms by (simp add: reserveItems_append)

text \<open>
  With quantities that are not negative, the stock the loop finds when it comes to an
  item is at most the stock at the start: an item that asks for more than its flower's
  stock at the start makes the loop fail.
\<close>

lemma requested_nonneg: "\<forall>it\<in>set its. 0 \<le> reqQuantity it \<Longrightarrow> 0 \<le> requested its fid"
  by (auto simp: requested_def intro!: sum_list_nonneg)

lemma reserveItems_over_stock:
  assumes "it \<in> set its"
    and "findById fs (reqFlowerId it) = Some f" and "stock f < reqQuantity it"
    and "\<forall>x\<in>set its. 0 \<le> reqQuantity x"
    and "\<forall>x\<in>set its. \<forall>g. findById fs (reqFlowerId x) = Some g \<longrightarrow> stock g \<le> 9007199254740992"
  shows "isl (reserveItems fl fs its amt acc)"
proof -
  from assms(1) obtain pre post where its: "its = pre @ it # post"
    by (auto dest: split_list)
  show ?thesis
  proof (cases "reserveItems fl fs pre amt acc")
    case (Inl e)
    with its show ?thesis
      by (simp add: reserveItems_append)
  next
    case (Inr r)
    then obtain fs' amt' acc' where r: "reserveItems fl fs pre amt acc = Inr (fs', amt', acc')"
      by (cases r) auto
    from assms(4,5) its have q: "\<forall>x\<in>set pre. 0 \<le> reqQuantity x"
      and b: "\<forall>x\<in>set pre. \<forall>g. findById fs (reqFlowerId x) = Some g \<longrightarrow> stock g \<le> 9007199254740992"
      by auto
    from reserveItems_stock [OF r q b, of "reqFlowerId it"] assms(2)
    have now: "findById fs' (reqFlowerId it)
                 = Some (f\<lparr>stock := stock f - requested pre (reqFlowerId it)\<rparr>)"
      by simp
    from requested_nonneg [OF q, of "reqFlowerId it"] assms(3)
    have "stock (f\<lparr>stock := stock f - requested pre (reqFlowerId it)\<rparr>) < reqQuantity it"
      by simp
    from reserveItems_short [OF its r now this] show ?thesis .
  qed
qed

lemma createOrder_unchanged_or_complete:
  "snd (createOrder fl rt now newId d req userId) = d
   \<or> (\<exists>fs amt pushed.
         reserveItems fl (flowers d) (items req) 0 [] = Inr (fs, amt, pushed)
       \<and> flowers (snd (createOrder fl rt now newId d req userId)) = fs
       \<and> orderItems (snd (createOrder fl rt now newId d req userId))
           = orderItems d @ snapshotItems (flowers d) newId (items req)
       \<and> findById (orders (snd (createOrder fl rt now newId d req userId))) newId \<noteq> None)"
proof (cases "reserveItems fl (flowers d) (items req) 0 []")
  case (Inl e)
  then show ?thesis
    by (simp add: createOrder_def)
next
  case (Inr r)
  then obtain fs amt pushed where r: "reserveItems fl (flowers d) (items req) 0 [] = Inr (fs, amt, pushed)"
    by (cases r) auto
  from reserveItems_pushed [OF r]
  have pushed: "map (\<lambda>(fid, p, q). \<lparr>flowerId = fid, actualPrice = p, quantity = q, orderId = newId\<rparr>) pushed
                  = snapshotItems (flowers d) newId (items req)"
    by (simp add: snapshotItems_def)
  show ?thesis
    using r pushed
    by (auto simp: createOrder_def Let_def getOrderById_def dest: findById_insertDoc
        split: option.splits sum.splits prod.splits)
qed

text \<open>
  C3. \<open>createOrder\<close> is all-or-nothing. When an item fails its reservation (its
  flower is missing; its flower's stock, when the loop comes to the item, is below the
  quantity, as it is when the stock at the start is, no quantity being negative; the stock
  write fails) or a persistence step fails (the save of the order, by
  a fault or a taken id, the insertion of the items, the commit), the call ends with an
  error and the datastore is the one it started from: no stock decremented, no Order, no
  OrderItem. And in every case the datastore afterwards is either that one or the complete
  one, with every requested stock decremented, all items and the order.
\<close>

theorem createOrder_all_or_nothing:
  "((\<exists>it\<in>set (items req). findById (flowers d) (reqFlowerId it) = None)
    \<or> (\<exists>pre it post fs amt acc f.
          items req = pre @ it # post
        \<and> reserveItems fl (flowers d) pre 0 [] = Inr (fs, amt, acc)
        \<and> findById fs (reqFlowerId it) = Some f \<and> stock f < reqQuantity it)
    \<or> ((\<exists>it\<in>set (items req). \<exists>f.
            findById (flowers d) (reqFlowerId it) = Some f \<and> stock f < reqQuantity it)
        \<and> (\<forall>it\<in>set (items req). 0 \<le> reqQuantity it)
        \<and> (\<forall>it\<in>set (items req). \<forall>f.
              findById (flowers d) (reqFlowerId it) = Some f \<longrightarrow> stock f \<le> 9007199254740992))
    \<or> (\<exists>it\<in>set (items req). flowerUpdateFails fl (reqFlowerId it))
    \<or> orderSaveFails fl \<or> newId \<in> set (map fst (orders d))
    \<or> insertManyFails fl \<or> commitFails fl
    \<longrightarrow> isl (fst (createOrder fl rt now newId d req userId))
        \<and> snd (createOrder fl rt now newId d req userId) = d)
   \<and> (snd (createOrder fl rt now newId d req userId) = d
      \<or> (\<exists>fs amt pushed.
            reserveItems fl (flowers d) (items req) 0 [] = Inr (fs, amt, pushed)
          \<and> flowers (snd (createOrder fl rt now newId d req userId)) = fs
          \<and> orderItems (snd (createOrder fl rt now newId d req userId))
              = orderItems d @ snapshotItems (flowers d) newId (items req)
          \<and> findById (orders (snd (createOrder fl rt now newId d req userId))) newId \<noteq> None))"
proof -
  have reservation: "isl (reserveItems fl (flowers d) (items req) 0 [])"
    if "(\<exists>it\<in>set (items req). findById (flowers d) (reqFlowerId it) = None)
        \<or> (\<exists>pre it post fs amt acc f.
              items req = pre @ it # post
            \<and> reserveItems fl (flowers d) pre 0 [] = Inr (fs, amt, acc)
            \<and> findById fs (reqFlowerId it) = Some f \<and> stock f < reqQuantity it)
        \<or> ((\<exists>it\<in>set (items req). \<exists>f.
                findById (flowers d) (reqFlowerId it) = Some f \<and> stock f < reqQuantity it)
            \<and> (\<forall>it\<in>set (items req). 0 \<le> reqQuantity it)
            \<and> (\<forall>it\<in>set (items req). \<forall>f.
                  findById (flowers d) (reqFlowerId it) = Some f \<longrightarrow> stock f \<le> 9007199254740992))
        \<or> (\<exists>it\<in>set (items req). flowerUpdateFails fl (reqFlowerId it))"
    using that
  proof (elim disjE)
    assume "\<exists>it\<in>set (items req). findById (flowers d) (reqFlowerId it) = None"
    then show ?thesis by (rule reserveItems_missing)
  next
    assume "\<exists>pre it post fs amt acc f.
              items req = pre @ it # post
            \<and> reserveItems fl (flowers d) pre 0 [] = Inr (fs, amt, acc)
            \<and> findById fs (reqFlowerId it) = Some f \<and> stock f < reqQuantity it"
    then obtain pre it post fs amt acc f where
      "items req = pre @ it # post"
      "reserveItems fl (flowers d) pre 0 [] = Inr (fs, amt, acc)"
      "findById fs (reqFlowerId it) = Some f" "stock f < reqQuantity it"
      by blast
    then show ?thesis by (rule reserveItems_short)
  next
    assume over: "(\<exists>it\<in>set (items req). \<exists>f.
                findById (flowers d) (reqFlowerId it) = Some f \<and> stock f < reqQuantity it)
            \<and> (\<forall>it\<in>set (items req). 0 \<le> reqQuantity it)
            \<and> (\<forall>it\<in>set (items req). \<forall>f.
                  findById (flowers d) (reqFlowerId it) = Some f \<longrightarrow> stock f \<le> 9007199254740992)"
    then obtain it f where "it \<in> set (items req)"
      "findById (flowers d) (reqFlowerId it) = Some f" "stock f < reqQuantity it"
      by blast
    with over show ?thesis
      by (intro reserveItems_over_stock) blast+
  next
    assume "\<exists>it\<in>set (items req). flowerUpdateFails fl (reqFlowerId it)"
    then show ?thesis by (rule reserveItems_update_fails)
  qed
  have aborted: "isl (fst (createOrder fl rt now newId d req userId))
        \<and> snd (createOrder fl rt now newId d req userId) = d"
    if "isl (reserveItems fl (flowers d) (items req) 0 []) \<or> orderSaveFails fl
        \<or> newId \<in> set (map fst (orders d)) \<or> insertManyFails fl \<or> commitFails fl"
    using that
    by (auto simp: createOrder_def insertDoc_def split: sum.splits option.splits prod.splits)
  from reservation aborted createOrder_unchanged_or_complete [of fl rt now newId d req userId]
  show ?thesis
    by blast
qed

text \<open>
  Witness of C3: the second item of a two-item order asks for a lily that is out of
  stock when the loop, two roses reserved, comes to it; the call fails and the shop, its
  five roses included, is as before.
\<close>

theorem createOrder_all_or_nothing_witness:
  "reserveItems noFaults (flowers shop) [\<lparr>reqFlowerId = 1, reqQuantity = 2\<rparr>] 0 []
     = Inr ([(1, \<lparr>name = ''Rose'', price = 75000, stock = 3\<rparr>),
             (2, \<lparr>name = ''Lily'', price = 20000, stock = 0\<rparr>)], 150000, [(1, 75000, 2)])
   \<and> isl (fst (createOrder noFaults digits 1000 10 shop rosesAndLily 7))
   \<and> snd (createOrder noFaults digits 1000 10 shop rosesAndLily 7) = shop
   \<and> map_option stock (findById (flowers (snd (createOrder noFaults digits 1000 10 shop rosesAndLily 7))) 1)
       = Some 5"
proof -
  let ?fs = "[(1, \<lparr>name = ''Rose'', price = 75000, stock = 3\<rparr>),
              (2, \<lparr>name = ''Lily'', price = 20000, stock = 0\<rparr>)]"
  have r: "reserveItems noFaults (flowers shop) [\<lparr>reqFlowerId = 1, reqQuantity = 2\<rparr>] 0 []
             = Inr (?fs, 150000, [(1, 75000, 2)])"
    by (simp add: shop_def noFaults_def findById_def findByIdAndUpdate_def
        jsAdd_def jsMul_def toDouble_def)
  have split: "items rosesAndLily
                 = [\<lparr>reqFlowerId = 1, reqQuantity = 2\<rparr>] @ \<lparr>reqFlowerId = 2, reqQuantity = 1\<rparr> # []"
    by (simp add: rosesAndLily_def)
  have lily: "findById ?fs (reqFlowerId \<lparr>reqFlowerId = 2, reqQuantity = 1\<rparr>)
                = Some \<lparr>name = ''Lily'', price = 20000, stock = 0\<rparr>
              \<and> stock \<lparr>name = ''Lily'', price = 20000, stock = 0\<rparr>
                  < reqQuantity \<lparr>reqFlowerId = 2, reqQuantity = 1\<rparr>"
    by (simp add: findById_def)
  from split r lily have short: "\<exists>pre it post fs amt acc f.
          items rosesAndLily = pre @ it # post
        \<and> reserveItems noFaults (flowers shop) pre 0 [] = Inr (fs, amt, acc)
        \<and> findById fs (reqFlowerId it) = Some f \<and> stock f < reqQuantity it"
    by blast
  from createOrder_all_or_nothing [of rosesAndLily shop noFaults 10 digits 1000 7] short
  have e: "isl (fst (createOrder noFaults digits 1000 10 shop rosesAndLily 7))
           \<and> snd (createOrder noFaults digits 1000 10 shop rosesAndLily 7) = shop"
    by blast
  have "map_option stock (findById (flowers shop) 1) = Some 5"
    by (simp add: shop_def findById_def)
  with r e show ?thesis
    by simp
qed

text \<open>
  The read of the order after the commit is not a persistence step: when it fails, the
  caller gets an error and the datastore is the complete one.
\<close>

lemma createOrder_read_back_failure:
  "fst (createOrder (noFaults\<lparr>readBackFails := True\<rparr>) digits 1000 10 shop twoRoses 7)
     = Inl CannotAbortAfterCommit
   \<and> map_option status
       (findById (orders (snd (createOrder (noFaults\<lparr>readBackFails := True\<rparr>) digits 1000 10
                                 shop twoRoses 7))) 10)
     = Some Pending
   \<and> map_option stock
       (findById (flowers (snd (createOrder (noFaults\<lparr>readBackFails := True\<rparr>) digits 1000 10
                                  shop twoRoses 7))) 1)
     = Some 3"
  by (simp add: createOrder_def shop_def twoRoses_def noFaults_def findById_def
      findByIdAndUpdate_def insertDoc_def jsAdd_def jsMul_def toDouble_def)

text \<open>
  C8, within the range where Number arithmetic is exact. A successful \<open>createOrder\<close>
  for a request whose shipping fee is a non-negative Number (or absent), whose quantities
  are at least 1 and whose flowers have non-negative prices and stocks of at most
  \<open>2^53\<close>, the exact total being at most \<open>2^53\<close>: the persisted order is the returned
  one, it is pending, its items are the requested ones with the flowers' prices as
  snapshots, its \<open>totalAmount\<close> is the sum of snapshot times quantity over these items
  plus the shipping fee, and every flower's stock is down by exactly the quantity requested
  of it.
\<close>

theorem createOrder_postcondition:
  assumes "createOrder fl rt now newId d req userId = (Inr (ord, its), d')"
    and "feeNumber (reqShippingFee req) = Some x" and "0 \<le> x"
    and "\<forall>it\<in>set (items req). 1 \<le> reqQuantity it"
    and "\<forall>it\<in>set (items req). 0 \<le> priceIn (flowers d) (reqFlowerId it)"
    and "\<forall>it\<in>set (items req). \<forall>f. findById (flowers d) (reqFlowerId it) = Some f
           \<longrightarrow> stock f \<le> 9007199254740992"
    and "itemsTotal (snapshotItems (flowers d) newId (items req)) + x \<le> 9007199254740992"
  shows "findById (orders d') newId = Some ord
       \<and> status ord = Pending
       \<and> orderItems d' = orderItems d @ snapshotItems (flowers d) newId (items req)
       \<and> totalAmount ord = itemsTotal (snapshotItems (flowers d) newId (items req)) + x
       \<and> (\<forall>fid. findById (flowers d') fid =
             map_option (\<lambda>f. f\<lparr>stock := stock f - requested (items req) fid\<rparr>)
               (findById (flowers d) fid))"
proof -
  from assms(1) obtain fs amt pushed tot fee os where
    r: "reserveItems fl (flowers d) (items req) 0 [] = Inr (fs, amt, pushed)"
    and am: "orderAmounts rt amt (reqShippingFee req) = Some (tot, fee)"
    and ins: "insertDoc (orders d) newId
                \<lparr>accountId = userId, totalAmount = tot, shippingFee = fee,
                 orderAt = now, paidAt = None, status = Pending,
                 addressShip = reqAddressShip req,
                 transactionId = None, paymentCode = None\<rparr> = Some os"
    and d': "d' = d\<lparr>flowers := fs, orders := os,
                    orderItems := orderItems d @
                      map (\<lambda>(fid, p, q). \<lparr>flowerId = fid, actualPrice = p,
                                           quantity = q, orderId = newId\<rparr>) pushed\<rparr>"
    and g: "getOrderById d' newId = Inr (ord, its)"
    by (auto simp: createOrder_def Let_def split: sum.splits option.splits if_splits prod.splits)
  have lines: "itemsTotal (snapshotItems (flowers d) newId (items req))
                 = (\<Sum>it\<leftarrow>items req. priceIn (flowers d) (reqFlowerId it) * reqQuantity it)"
    by (simp add: itemsTotal_def snapshotItems_def comp_def)
  from assms(4) have q: "\<forall>it\<in>set (items req). 0 \<le> reqQuantity it"
    by auto
  have nonneg: "0 \<le> (\<Sum>it\<leftarrow>items req. priceIn (flowers d) (reqFlowerId it) * reqQuantity it)"
    using q assms(5) by (intro sum_list_nonneg) auto
  from q assms(5) have qp: "\<forall>it\<in>set (items req).
      0 \<le> reqQuantity it \<and> 0 \<le> priceIn (flowers d) (reqFlowerId it)"
    by simp
  from assms(3,7) lines
  have bound: "0 + (\<Sum>it\<leftarrow>items req. priceIn (flowers d) (reqFlowerId it) * reqQuantity it)
                 \<le> 9007199254740992"
    by simp
  from reserveItems_amount [OF r qp _ bound] lines
  have amt: "amt = itemsTotal (snapshotItems (flowers d) newId (items req))"
    by simp
  from am assms(2) have "tot = jsAdd amt x"
    by (cases "reqShippingFee req" rule: feeNumber.cases) auto
  with amt nonneg lines assms(3,7)
  have tot: "tot = itemsTotal (snapshotItems (flowers d) newId (items req)) + x"
    by (simp add: jsAdd_exact)
  have stocks: "findById fs fid =
      map_option (\<lambda>f. f\<lparr>stock := stock f - requested (items req) fid\<rparr>) (findById (flowers d) fid)"
    for fid
    by (rule reserveItems_stock [OF r q assms(6)])
  from reserveItems_pushed [OF r]
  have pushed: "map (\<lambda>(fid, p, q). \<lparr>flowerId = fid, actualPrice = p, quantity = q, orderId = newId\<rparr>) pushed
                  = snapshotItems (flowers d) newId (items req)"
    by (simp add: snapshotItems_def)
  have saved: "findById (orders d') newId =
      Some \<lparr>accountId = userId, totalAmount = tot, shippingFee = fee,
            orderAt = now, paidAt = None, status = Pending,
            addressShip = reqAddressShip req,
            transactionId = None, paymentCode = None\<rparr>"
    using findById_insertDoc [OF ins] d' by simp
  with g have ord: "ord = \<lparr>accountId = userId, totalAmount = tot, shippingFee = fee,
            orderAt = now, paidAt = None, status = Pending,
            addressShip = reqAddressShip req,
            transactionId = None, paymentCode = None\<rparr>"
    by (simp add: getOrderById_def)
  show ?thesis
    using saved ord tot stocks pushed d' by simp
qed

text \<open>
  Witness of C8 within the exact range, the scenario of the specification: two roses at
  75000 from a stock of five, no shipping fee; the order is pending with \<open>totalAmount\<close>
  150000 and three roses are left.
\<close>

theorem createOrder_postcondition_witness:
  "fst (createOrder noFaults digits 1000 10 shop twoRoses 7)
     = Inr (orderTen Pending None\<lparr>orderAt := 1000, transactionId := None, paymentCode := None\<rparr>,
            [\<lparr>flowerId = 1, actualPrice = 75000, quantity = 2, orderId = 10\<rparr>])
   \<and> map_option status (findById (orders (snd (createOrder noFaults digits 1000 10 shop twoRoses 7))) 10)
       = Some Pending
   \<and> map_option totalAmount (findById (orders (snd (createOrder noFaults digits 1000 10 shop twoRoses 7))) 10)
       = Some 150000
   \<and> map_option stock (findById (flowers (snd (createOrder noFaults digits 1000 10 shop twoRoses 7))) 1)
       = Some 3"
proof -
  let ?ord = "orderTen Pending None\<lparr>orderAt := 1000, transactionId := None, paymentCode := None\<rparr>"
  let ?its = "[\<lparr>flowerId = 1, actualPrice = 75000, quantity = 2, orderId = 10\<rparr>]"
  have run: "fst (createOrder noFaults digits 1000 10 shop twoRoses 7) = Inr (?ord, ?its)"
    by (simp add: createOrder_def shop_def twoRoses_def noFaults_def orderTen_def
        findById_def findByIdAndUpdate_def insertDoc_def getOrderById_def
        jsAdd_def jsMul_def toDouble_def)
  then have whole: "createOrder noFaults digits 1000 10 shop twoRoses 7
               = (Inr (?ord, ?its), snd (createOrder noFaults digits 1000 10 shop twoRoses 7))"
    by (simp add: prod_eq_iff)
  have fee: "feeNumber (reqShippingFee twoRoses) = Some 0" "(0::int) \<le> 0"
    by (simp_all add: twoRoses_def)
  have qty: "\<forall>it\<in>set (items twoRoses). 1 \<le> reqQuantity it"
    by (simp add: twoRoses_def)
  have prices: "\<forall>it\<in>set (items twoRoses). 0 \<le> priceIn (flowers shop) (reqFlowerId it)"
    by (simp add: twoRoses_def priceIn_def shop_def findById_def)
  have stocks: "\<forall>it\<in>set (items twoRoses). \<forall>f. findById (flowers shop) (reqFlowerId it) = Some f
           \<longrightarrow> stock f \<le> 9007199254740992"
    by (auto simp: twoRoses_def shop_def findById_def)
  have t: "itemsTotal (snapshotItems (flowers shop) 10 (items twoRoses)) = 150000"
    by (simp add: itemsTotal_def snapshotItems_def twoRoses_def priceIn_def shop_def findById_def)
  then have total: "itemsTotal (snapshotItems (flowers shop) 10 (items twoRoses)) + 0
                      \<le> 9007199254740992"
    by simp
  note post = createOrder_postcondition [OF whole fee qty prices stocks total]
  have s: "findById (flowers shop) 1 = Some \<lparr>name = ''Rose'', price = 75000, stock = 5\<rparr>"
    by (simp add: shop_def findById_def)
  have q: "requested (items twoRoses) 1 = 2"
    by (simp add: requested_def twoRoses_def)
  from post s q t run show ?thesis
    by (simp add: orderTen_def)
qed

text \<open>
  C8 without the bounds fails: three roses at \<open>2^53 - 1\<close> are ordered with success;
  the shipping fee is 0 and snapshot times quantity is 27021597764222973, and the
  \<open>totalAmount\<close> of the persisted order is 27021597764222972.
\<close>

theorem createOrder_total_rounds:
  "\<not> isl (fst (createOrder noFaults digits 1000 10 dearShop threeRoses 7))
   \<and> map_option totalAmount
       (findById (orders (snd (createOrder noFaults digits 1000 10 dearShop threeRoses 7))) 10)
     = Some 27021597764222972
   \<and> map_option shippingFee
       (findById (orders (snd (createOrder noFaults digits 1000 10 dearShop threeRoses 7))) 10)
     = Some 0
   \<and> itemsTotal (itemsOfOrder (snd (createOrder noFaults digits 1000 10 dearShop threeRoses 7)) 10)
     = 27021597764222973"
  by (simp add: createOrder_def dearShop_def shop_def threeRoses_def noFaults_def
      findById_def findByIdAndUpdate_def insertDoc_def getOrderById_def itemsTotal_def
      itemsOfOrder_def jsAdd_def jsMul_def toDouble_def roundHalfEven_def ulp.simps Let_def)

text \<open>
  A shipping fee that is a numeric string is concatenated, not added: two roses with the
  fee "5000" give the \<open>totalAmount\<close> 1500005000.
\<close>

lemma createOrder_string_fee:
  "map_option totalAmount
     (findById (orders (snd (createOrder noFaults digits 1000 10 shop
                               (twoRoses\<lparr>reqShippingFee := Some (FeeString ''5000'')\<rparr>) 7))) 10)
     = Some 1500005000"
  by (simp add: createOrder_def shop_def twoRoses_def noFaults_def digits_def readNumber_def
      digitChars_def decimal.simps upt_rec findById_def findByIdAndUpdate_def insertDoc_def
      getOrderById_def jsAdd_def jsMul_def toDouble_def)

section \<open>Adding items to an order\<close>






section \<open>The webhook\<close>




text \<open>
  C10. A processed webhook reports, as \<open>status\<close>, the transaction status that was
  read before the write: the order found by the code has a transaction, the result carries
  that transaction's status, and the datastore then holds the status the \<open>switch\<close> chose.
\<close>

theorem webhook_reports_prior_status:
  assumes "fst (handlePaymentWebhook verify now d w) = Inr r"
  shows "\<exists>oc i ord tid t.
           whOrderCode w = Some oc
         \<and> findOneByPaymentCode (orders d) oc = Some (i, ord)
         \<and> transactionId ord = Some tid
         \<and> findById (transactions d) tid = Some t
         \<and> wrStatus r = transactionStatus t
         \<and> findById (transactions (snd (handlePaymentWebhook verify now d w))) tid
             = Some (t\<lparr>transactionStatus := storedStatus (whStatus w)\<rparr>)"
proof -
  from assms obtain oc where oc: "whOrderCode w = Some oc" and v: "verify w = VerifyOk"
    by (auto simp: handlePaymentWebhook_def split: verifyOutcome.splits option.splits)
  from assms oc v obtain i ord where f: "findOneByPaymentCode (orders d) oc = Some (i, ord)"
    by (auto simp: handlePaymentWebhook_def split: option.splits)
  from assms oc v f obtain tid t where
    ft: "findTransaction (transactions d) (transactionId ord) = Some (tid, t)"
    by (auto simp: handlePaymentWebhook_def split: option.splits)
  then have tid: "transactionId ord = Some tid" and t: "findById (transactions d) tid = Some t"
    by (cases "transactionId ord"; auto)+
  from assms oc v f ft have st: "wrStatus r = transactionStatus t"
    by (auto simp: handlePaymentWebhook_def Let_def split: if_splits sum.splits)
  from assms oc v f ft t
  have "findById (transactions (snd (handlePaymentWebhook verify now d w))) tid
             = Some (t\<lparr>transactionStatus := storedStatus (whStatus w)\<rparr>)"
    by (auto simp: handlePaymentWebhook_def Let_def storedStatus_def findById_update
        split: if_splits sum.splits)
  with oc f tid t st show ?thesis
    by blast
qed

text \<open>
  Witness of C10: a PAID webhook for a pending transaction stores completed and reports
  pending.
\<close>

theorem webhook_reports_prior_status_witness:
  "map_sum id wrStatus
      (fst (handlePaymentWebhook genuine 2000
              (shopWith (orderTen Pending None) (txTwenty TxPending)) (hook ''PAID'')))
     = Inr TxPending
   \<and> map_option transactionStatus
       (findById (transactions (snd (handlePaymentWebhook genuine 2000
              (shopWith (orderTen Pending None) (txTwenty TxPending)) (hook ''PAID'')))) 20)
     = Some TxCompleted"
proof -
  let ?d = "shopWith (orderTen Pending None) (txTwenty TxPending)"
  let ?r = "\<lparr>wrSuccess = True, wrMessage = ''Webhook processed successfully'',
             wrOrderCode = ''123456'', wrStatus = TxPending\<rparr>"
  have run: "fst (handlePaymentWebhook genuine 2000 ?d (hook ''PAID'')) = Inr ?r"
    by (simp add: handlePaymentWebhook_def genuine_def shopWith_def hook_def findOneByPaymentCode_def
        orderTen_def txTwenty_def findById_def findByIdAndUpdate_def updatePaymentStatus_def)
  have f: "findOneByPaymentCode (orders ?d) ''123456'' = Some (10, orderTen Pending None)"
    by (simp add: shopWith_def findOneByPaymentCode_def orderTen_def)
  have t: "findById (transactions ?d) 20 = Some (txTwenty TxPending)"
    by (simp add: shopWith_def findById_def)
  from webhook_reports_prior_status [OF run] f t
  have "findById (transactions (snd (handlePaymentWebhook genuine 2000 ?d (hook ''PAID'')))) 20
          = Some (txTwenty TxPending\<lparr>transactionStatus := storedStatus (whStatus (hook ''PAID''))\<rparr>)"
    by (auto simp: hook_def orderTen_def)
  with run show ?thesis
    by (simp add: storedStatus_def hook_def)
qed


section \<open>Reconciliation\<close>

lemma findTransaction_Some:
  "transactionId ord = Some tid \<Longrightarrow> findById ts tid = Some t \<Longrightarrow>
   findTransaction ts (transactionId ord) = Some (tid, t)"
  by simp

text \<open>
  C1, as the code has it. A cancelled outcome (the redirect with \<open>cancel = 'true'\<close>
  that is not a paid redirect, or a verified webhook with status CANCELLED) for an order
  whose transaction exists sets that transaction to cancelled whatever its status was,
  completed included, and changes nothing else.
\<close>

theorem cancel_sets_cancelled:
  assumes "findOneByPaymentCode (orders d) oc = Some (i, ord)"
    and "transactionId ord = Some tid"
    and "findById (transactions d) tid = Some t"
  shows "(qOrderCode q = Some oc \<and> qCancel q = Some ''true''
            \<and> \<not> (qCode q = Some ''00'' \<and> qStatus q = Some ''PAID'') \<longrightarrow>
          snd (handlePaymentReturn now d q)
            = d\<lparr>transactions := findByIdAndUpdate (transactions d) tid
                                   (\<lambda>t. t\<lparr>transactionStatus := TxCancelled\<rparr>)\<rparr>
          \<and> findById (transactions (snd (handlePaymentReturn now d q))) tid
              = Some (t\<lparr>transactionStatus := TxCancelled\<rparr>))
       \<and> (verify w = VerifyOk \<and> whOrderCode w = Some oc \<and> whStatus w = Some ''CANCELLED'' \<longrightarrow>
          snd (handlePaymentWebhook verify now d w)
            = d\<lparr>transactions := findByIdAndUpdate (transactions d) tid
                                   (\<lambda>t. t\<lparr>transactionStatus := TxCancelled\<rparr>)\<rparr>
          \<and> findById (transactions (snd (handlePaymentWebhook verify now d w))) tid
              = Some (t\<lparr>transactionStatus := TxCancelled\<rparr>))"
proof -
  note ft = findTransaction_Some [OF assms(2) assms(3)]
  have redirect: "snd (handlePaymentReturn now d q)
            = d\<lparr>transactions := findByIdAndUpdate (transactions d) tid
                                   (\<lambda>t. t\<lparr>transactionStatus := TxCancelled\<rparr>)\<rparr>"
    if "qOrderCode q = Some oc" "qCancel q = Some ''true''"
       "\<not> (qCode q = Some ''00'' \<and> qStatus q = Some ''PAID'')"
    using that assms(1) ft by (auto simp: handlePaymentReturn_def Let_def)
  have hook: "snd (handlePaymentWebhook verify now d w)
            = d\<lparr>transactions := findByIdAndUpdate (transactions d) tid
                                   (\<lambda>t. t\<lparr>transactionStatus := TxCancelled\<rparr>)\<rparr>"
    if "verify w = VerifyOk" "whOrderCode w = Some oc" "whStatus w = Some ''CANCELLED''"
    using that assms(1) ft by (simp add: handlePaymentWebhook_def genuine_def Let_def)
  have stored: "findById (transactions (d\<lparr>transactions := findByIdAndUpdate (transactions d) tid
                                   (\<lambda>t. t\<lparr>transactionStatus := TxCancelled\<rparr>)\<rparr>)) tid
                  = Some (t\<lparr>transactionStatus := TxCancelled\<rparr>)"
    using assms(3) by (simp add: findById_update)
  from redirect hook stored show ?thesis
    by simp
qed

text \<open>
  Witness of C1 as amended: the cancel redirect and the CANCELLED webhook for order 10,
  whose transaction 20 is completed.
\<close>

theorem cancel_sets_cancelled_witness:
  "findOneByPaymentCode (orders (shopWith (orderTen Paid (Some 1000)) (txTwenty TxCompleted))) ''123456''
     = Some (10, orderTen Paid (Some 1000))
   \<and> transactionId (orderTen Paid (Some 1000)) = Some 20
   \<and> findById (transactions (shopWith (orderTen Paid (Some 1000)) (txTwenty TxCompleted))) 20
       = Some (txTwenty TxCompleted)
   \<and> findById (transactions (snd (handlePaymentReturn 2000
         (shopWith (orderTen Paid (Some 1000)) (txTwenty TxCompleted)) cancelQuery))) 20
       = Some (txTwenty TxCancelled)
   \<and> findById (transactions (snd (handlePaymentWebhook genuine 2000
         (shopWith (orderTen Paid (Some 1000)) (txTwenty TxCompleted)) (hook ''CANCELLED'')))) 20
       = Some (txTwenty TxCancelled)"
proof -
  let ?d = "shopWith (orderTen Paid (Some 1000)) (txTwenty TxCompleted)"
  have a: "findOneByPaymentCode (orders ?d) ''123456'' = Some (10, orderTen Paid (Some 1000))"
    by (simp add: shopWith_def findOneByPaymentCode_def orderTen_def)
  have b: "transactionId (orderTen Paid (Some 1000)) = Some 20"
    by (simp add: orderTen_def)
  have c: "findById (transactions ?d) 20 = Some (txTwenty TxCompleted)"
    by (simp add: shopWith_def findById_def)
  have q: "qOrderCode cancelQuery = Some ''123456'' \<and> qCancel cancelQuery = Some ''true''
            \<and> \<not> (qCode cancelQuery = Some ''00'' \<and> qStatus cancelQuery = Some ''PAID'')"
    by (simp add: cancelQuery_def)
  have h: "genuine (hook ''CANCELLED'') = VerifyOk
            \<and> whOrderCode (hook ''CANCELLED'') = Some ''123456''
            \<and> whStatus (hook ''CANCELLED'') = Some ''CANCELLED''"
    by (simp add: hook_def genuine_def)
  note inst = cancel_sets_cancelled [OF a b c, where q = cancelQuery and verify = genuine
         and w = "hook ''CANCELLED''" and now = 2000]
  from inst q have r1: "findById (transactions (snd (handlePaymentReturn 2000 ?d cancelQuery))) 20
       = Some (txTwenty TxCompleted\<lparr>transactionStatus := TxCancelled\<rparr>)"
    by blast
  from inst h have r2: "findById (transactions (snd (handlePaymentWebhook genuine 2000 ?d
          (hook ''CANCELLED'')))) 20
       = Some (txTwenty TxCompleted\<lparr>transactionStatus := TxCancelled\<rparr>)"
    by blast
  have e: "txTwenty TxCompleted\<lparr>transactionStatus := TxCancelled\<rparr> = txTwenty TxCancelled"
    by (simp add: txTwenty_def)
  from a b c r1 r2 e show ?thesis
    by simp
qed

text \<open>
  C1 as stated fails: transaction 20 of order 10 is completed, and after the cancel
  redirect, and likewise after a CANCELLED webhook, it is cancelled.
\<close>

theorem completed_regresses_to_cancelled:
  "map_option transactionStatus
      (findById (transactions (shopWith (orderTen Paid (Some 1000)) (txTwenty TxCompleted))) 20)
     = Some TxCompleted
   \<and> map_option transactionStatus
       (findById (transactions (snd (handlePaymentReturn 2000
          (shopWith (orderTen Paid (Some 1000)) (txTwenty TxCompleted)) cancelQuery))) 20)
     = Some TxCancelled
   \<and> map_option transactionStatus
       (findById (transactions (snd (handlePaymentWebhook genuine 2000
          (shopWith (orderTen Paid (Some 1000)) (txTwenty TxCompleted)) (hook ''CANCELLED'')))) 20)
     = Some TxCancelled"
  by (simp add: handlePaymentReturn_def handlePaymentWebhook_def genuine_def shopWith_def orderTen_def
      txTwenty_def cancelQuery_def hook_def findOneByPaymentCode_def findById_def
      findByIdAndUpdate_def)

text \<open>
  The cancel branch of the later \<open>handlePaymentReturn\<close> spares only a transaction
  that is already cancelled: a completed one is set to cancelled there too.
\<close>

lemma handlePaymentReturn_v2_cancels_completed:
  "map_option transactionStatus
     (findById (transactions (snd (handlePaymentReturn_v2 2000
        (shopWith (orderTen Paid (Some 1000)) (txTwenty TxCompleted)) cancelQuery))) 20)
     = Some TxCancelled"
  by (simp add: handlePaymentReturn_v2_def shopWith_def orderTen_def txTwenty_def
      cancelQuery_def findOneByPaymentCode_def findById_def findByIdAndUpdate_def)

text \<open>
  What the paid branch of the later \<open>handlePaymentReturn\<close> does for an order whose
  transaction is already completed: it writes nothing and says so.
\<close>

lemma handlePaymentReturn_v2_already_completed:
  assumes "findOneByPaymentCode (orders d) oc = Some (i, ord)"
    and "transactionId ord = Some tid"
    and "findById (transactions d) tid = Some t"
    and "transactionStatus t = TxCompleted"
    and "qOrderCode q = Some oc" and "oc \<noteq> []"
    and "qCode q = Some ''00''" and "qStatus q = Some ''PAID''"
  shows "handlePaymentReturn_v2 now d q
           = (Inr \<lparr>rrSuccess = True, rrMessage = ''Payment already completed'',
                    rrOrderCode = oc, rrOrderId = i, rrStatus = Some ''PAID''\<rparr>, d)"
  using assms findTransaction_Some [OF assms(2) assms(3)]
  by (simp add: handlePaymentReturn_v2_def)

lemma handlePaymentReturn_v2_second_call:
  "handlePaymentReturn_v2 2000
     (snd (handlePaymentReturn_v2 1000 (shopWith (orderTen Pending None) (txTwenty TxPending))
             paidQuery)) paidQuery
     = (Inr \<lparr>rrSuccess = True, rrMessage = ''Payment already completed'',
              rrOrderCode = ''123456'', rrOrderId = 10, rrStatus = Some ''PAID''\<rparr>,
        snd (handlePaymentReturn_v2 1000 (shopWith (orderTen Pending None) (txTwenty TxPending))
               paidQuery))"
  by (simp add: handlePaymentReturn_v2_def updatePaymentStatus_def shopWith_def orderTen_def
      txTwenty_def paidQuery_def findOneByPaymentCode_def findById_def findByIdAndUpdate_def)

text \<open>
  C2 is what the later \<open>handlePaymentReturn\<close> does and what the webhook, and the
  \<open>handlePaymentReturn\<close> of \<^verbatim>\<open>paymentService.js\<close>, miss. A PAID webhook at time 1000
  completes the payment of order 10; the same webhook again at time 2000 answers "Webhook
  processed successfully" once more and moves the order's \<open>paidAt\<close> from 1000 to 2000.
  So does the paid redirect of \<^verbatim>\<open>paymentService.js\<close>, answering "Payment successful".
\<close>

theorem second_paid_call_mutates:
  "map_option paidAt (findById (orders (snd (handlePaymentWebhook genuine 1000
        (shopWith (orderTen Pending None) (txTwenty TxPending)) (hook ''PAID'')))) 10)
     = Some (Some 1000)
   \<and> map_option transactionStatus (findById (transactions (snd (handlePaymentWebhook genuine 1000
        (shopWith (orderTen Pending None) (txTwenty TxPending)) (hook ''PAID'')))) 20)
     = Some TxCompleted
   \<and> map_option paidAt (findById (orders (snd (handlePaymentWebhook genuine 2000
        (snd (handlePaymentWebhook genuine 1000
           (shopWith (orderTen Pending None) (txTwenty TxPending)) (hook ''PAID'')))
        (hook ''PAID'')))) 10)
     = Some (Some 2000)
   \<and> map_sum id wrMessage (fst (handlePaymentWebhook genuine 2000
        (snd (handlePaymentWebhook genuine 1000
           (shopWith (orderTen Pending None) (txTwenty TxPending)) (hook ''PAID'')))
        (hook ''PAID'')))
     = Inr ''Webhook processed successfully''
   \<and> map_option paidAt (findById (orders (snd (handlePaymentReturn 2000
        (snd (handlePaymentReturn 1000
           (shopWith (orderTen Pending None) (txTwenty TxPending)) paidQuery)) paidQuery))) 10)
     = Some (Some 2000)
   \<and> map_sum id rrMessage (fst (handlePaymentReturn 2000
        (snd (handlePaymentReturn 1000
           (shopWith (orderTen Pending None) (txTwenty TxPending)) paidQuery)) paidQuery))
     = Inr ''Payment successful''"
  by (simp add: handlePaymentWebhook_def handlePaymentReturn_def updatePaymentStatus_def
      genuine_def hook_def shopWith_def orderTen_def txTwenty_def paidQuery_def
      findOneByPaymentCode_def findById_def findByIdAndUpdate_def)

section \<open>Payment links\<close>

text \<open>
  The later versions of \<open>createPaymentLink\<close> refuse an order that has a payment code,
  and change nothing.
\<close>

lemma createPaymentLink_later_refuse_second:
  assumes "lrOrderId req = Some i"
    and "findById (orders d) i = Some ord"
    and "status ord = Pending"
    and "paymentCode ord = Some code" and "code \<noteq> []"
  shows "createPaymentLink_v2 env d req = (Inl PaymentLinkAlreadyExists, d)
       \<and> createPaymentLink_v3 env d req = (Inl PaymentLinkAlreadyExists, d)"
  using assms by (simp add: createPaymentLink_v2_def createPaymentLink_v3_def)

lemma createPaymentLink_later_refuse_order_ten:
  "createPaymentLink_v2 (linkEnv (Inr linkOk)) (shopWith (orderTen Pending None) (txTwenty TxPending))
     linkReq
     = (Inl PaymentLinkAlreadyExists, shopWith (orderTen Pending None) (txTwenty TxPending))
   \<and> createPaymentLink_v3 (linkEnv (Inr linkOk)) (shopWith (orderTen Pending None) (txTwenty TxPending))
       linkReq
     = (Inl PaymentLinkAlreadyExists, shopWith (orderTen Pending None) (txTwenty TxPending))"
  by (simp add: createPaymentLink_v2_def createPaymentLink_v3_def shopWith_def orderTen_def
      linkReq_def findById_def)

text \<open>
  C6 is what the two later versions do and what the \<open>createPaymentLink\<close> of
  \<^verbatim>\<open>paymentService.js\<close> misses: it does not read the order's \<open>paymentCode\<close>. Order
  10 is pending and already has payment code 123456 and transaction 20; a second call for
  it succeeds, replaces the code by 654321 and saves a new pending transaction 21.
\<close>

theorem second_link_is_issued:
  "map_option paymentCode
      (findById (orders (shopWith (orderTen Pending None) (txTwenty TxPending))) 10)
     = Some (Some ''123456'')
   \<and> \<not> isl (fst (createPaymentLink (linkEnv (Inr linkOk))
                 (shopWith (orderTen Pending None) (txTwenty TxPending)) linkReq))
   \<and> map_option paymentCode
       (findById (orders (snd (createPaymentLink (linkEnv (Inr linkOk))
                 (shopWith (orderTen Pending None) (txTwenty TxPending)) linkReq))) 10)
     = Some (Some ''654321'')
   \<and> map_option transactionStatus
       (findById (transactions (snd (createPaymentLink (linkEnv (Inr linkOk))
                 (shopWith (orderTen Pending None) (txTwenty TxPending)) linkReq))) 21)
     = Some TxPending"
  by (simp add: createPaymentLink_def saveAndCallGateway_def gatewayItems_def
      paymentCodeTaken_def insertDoc_def shopWith_def orderTen_def txTwenty_def linkEnv_def
      linkReq_def linkOk_def findById_def findByIdAndUpdate_def jsMul_def toDouble_def)

text \<open>
  When the gateway throws, the later versions mark the new transaction failed and clear
  the order's payment code; the order stays pending and the stock is as it was.
\<close>

lemma createPaymentLink_later_clear_code:
  "fst (createPaymentLink_v2 (linkEnv (Inl ''timeout'')) unpaidShop linkReq)
     = Inl (PaymentLinkCreationFailed ''timeout'')
   \<and> findById (orders (snd (createPaymentLink_v2 (linkEnv (Inl ''timeout'')) unpaidShop linkReq))) 10
     = Some ((orderTen Pending None)\<lparr>transactionId := Some 21, paymentCode := None\<rparr>)
   \<and> map_option transactionStatus
       (findById (transactions (snd (createPaymentLink_v2 (linkEnv (Inl ''timeout'')) unpaidShop
                                       linkReq))) 21)
     = Some TxFailed
   \<and> flowers (snd (createPaymentLink_v2 (linkEnv (Inl ''timeout'')) unpaidShop linkReq))
     = flowers unpaidShop
   \<and> fst (createPaymentLink_v3 (linkEnv (Inl ''timeout'')) unpaidShop linkReq)
     = Inl (PaymentLinkCreationFailed ''timeout'')
   \<and> findById (orders (snd (createPaymentLink_v3 (linkEnv (Inl ''timeout'')) unpaidShop linkReq))) 10
     = Some ((orderTen Pending None)\<lparr>transactionId := Some 21, paymentCode := None\<rparr>)
   \<and> map_option transactionStatus
       (findById (transactions (snd (createPaymentLink_v3 (linkEnv (Inl ''timeout'')) unpaidShop
                                       linkReq))) 21)
     = Some TxFailed
   \<and> flowers (snd (createPaymentLink_v3 (linkEnv (Inl ''timeout'')) unpaidShop linkReq))
     = flowers unpaidShop"
  by (simp add: createPaymentLink_v2_def createPaymentLink_v3_def saveAndCallGateway_def
      paymentDataLater_def gatewayItems_def paymentCodeTaken_def insertDoc_def unpaidShop_def
      shopWith_def orderTen_def txTwenty_def linkEnv_def linkReq_def findById_def
      findByIdAndUpdate_def jsMul_def toDouble_def)

text \<open>
  The compensation of the later versions in general: once the transaction is saved and
  the order has its code, a gateway that throws leaves the transaction failed and the order
  without payment code.
\<close>

lemma saveAndCallGateway_clears_code:
  assumes "findById (orders d) i = Some ord"
    and "envTransactionId env \<notin> set (map fst (transactions d))"
    and "\<not> paymentCodeTaken (orders d) i (envOrderCode env)"
    and "payOSCreatePaymentLink env pd = Inl msg"
  shows "fst (saveAndCallGateway True env sys d i ord pd) = Inl (PaymentLinkCreationFailed msg)
       \<and> findById (orders (snd (saveAndCallGateway True env sys d i ord pd))) i
           = Some (ord\<lparr>transactionId := Some (envTransactionId env), paymentCode := None\<rparr>)
       \<and> map_option transactionStatus
           (findById (transactions (snd (saveAndCallGateway True env sys d i ord pd)))
              (envTransactionId env))
           = Some TxFailed
       \<and> flowers (snd (saveAndCallGateway True env sys d i ord pd)) = flowers d
       \<and> orderItems (snd (saveAndCallGateway True env sys d i ord pd)) = orderItems d"
proof -
  have fresh: "findById (transactions d @ [(envTransactionId env, x)]) (envTransactionId env) = Some x"
    for x :: transaction
    using findById_insertDoc [of "transactions d" "envTransactionId env" x] assms(2)
    by (simp add: insertDoc_def)
  show ?thesis
    using assms fresh
    by (simp add: saveAndCallGateway_def insertDoc_fresh Let_def findById_update)
qed

text \<open>
  C7 is what the two later versions do and what the \<open>catch\<close> of
  \<^verbatim>\<open>paymentService.js\<close> misses: it marks the transaction failed and leaves the order
  as it is. After the gateway failure on the first payment link of order 10, the order's
  payment code is 654321, the code of the failed attempt, not cleared; the transaction is
  failed, the order pending and the stock untouched.
\<close>

theorem gateway_failure_keeps_code:
  "map_option paymentCode (findById (orders unpaidShop) 10) = Some None
   \<and> fst (createPaymentLink (linkEnv (Inl ''timeout'')) unpaidShop linkReq)
       = Inl (PaymentLinkCreationFailed ''timeout'')
   \<and> map_option paymentCode
       (findById (orders (snd (createPaymentLink (linkEnv (Inl ''timeout'')) unpaidShop linkReq))) 10)
     = Some (Some ''654321'')
   \<and> map_option transactionStatus
       (findById (transactions (snd (createPaymentLink (linkEnv (Inl ''timeout'')) unpaidShop
                                       linkReq))) 21)
     = Some TxFailed
   \<and> map_option status
       (findById (orders (snd (createPaymentLink (linkEnv (Inl ''timeout'')) unpaidShop linkReq))) 10)
     = Some Pending
   \<and> flowers (snd (createPaymentLink (linkEnv (Inl ''timeout'')) unpaidShop linkReq))
     = flowers unpaidShop"
  by (simp add: createPaymentLink_def saveAndCallGateway_def gatewayItems_def
      paymentCodeTaken_def insertDoc_def unpaidShop_def shopWith_def orderTen_def txTwenty_def
      linkEnv_def linkReq_def findById_def findByIdAndUpdate_def jsMul_def toDouble_def)

section \<open>The timeout sweep\<close>

lemma orders_cancelExpiredOrder:
  "orders (cancelExpiredOrder d io)
     = findByIdAndUpdate (orders d) (fst io) (\<lambda>ord. ord\<lparr>status := Cancelled\<rparr>)"
  by (simp add: cancelExpiredOrder_def Let_def split: option.splits)

lemma orders_foldl_cancelExpiredOrder:
  "orders (foldl cancelExpiredOrder d xs)
     = foldl (\<lambda>os io. findByIdAndUpdate os (fst io) (\<lambda>ord. ord\<lparr>status := Cancelled\<rparr>)) (orders d) xs"
  by (induction xs arbitrary: d) (simp_all add: orders_cancelExpiredOrder)

lemma findById_foldl_update:
  assumes "\<And>x. f (f x) = f x"
  shows "findById (foldl (\<lambda>os io. findByIdAndUpdate os (fst io) f) os xs) i
           = (if i \<in> fst ` set xs then map_option f (findById os i) else findById os i)"
proof (induction xs arbitrary: os)
  case Nil
  then show ?case by simp
next
  case (Cons x xs)
  show ?case
    by (cases "findById os i") (auto simp: Cons.IH findById_update assms)
qed

lemma expired_iff:
  assumes "distinct (map fst os)" and "findById os i = Some ord"
  shows "i \<in> fst ` set (expiredOrders now os)
           \<longleftrightarrow> status ord = Pending \<and> paymentCode ord \<noteq> None \<and> orderAt ord < now - 600000"
proof -
  have "(i, x) \<in> set os \<longleftrightarrow> x = ord" for x
    using assms by (auto simp: findById_def dest: eq_key_imp_eq_value)
  then show ?thesis
    by (force simp: expiredOrders_def PAYMENT_TIMEOUT_MINUTES_def)
qed

text \<open>
  C5, as the code has it. One tick, the query and then the loop with nothing in
  between, on orders with distinct ids: an order that was pending, had a payment code and
  was placed more than ten minutes (600000 ms) before the tick is set to cancelled, and
  every other order is left as it was. So every order the tick cancels was pending, with
  a payment code, and expired when the query selected it.
\<close>

theorem reaper_cancels_only_expired_pending:
  assumes "distinct (map fst (orders d))"
    and "findById (orders d) i = Some ord"
  shows "findById (orders (checkAndCancelExpiredPayments now d)) i
           = Some (if status ord = Pending \<and> paymentCode ord \<noteq> None \<and> orderAt ord < now - 600000
                   then ord\<lparr>status := Cancelled\<rparr> else ord)"
proof (cases "expiredOrders now (orders d) = []")
  case True
  with expired_iff [OF assms, of now] assms(2) show ?thesis
    by (simp add: checkAndCancelExpiredPayments_def)
next
  case False
  then have "orders (checkAndCancelExpiredPayments now d)
      = foldl (\<lambda>os io. findByIdAndUpdate os (fst io) (\<lambda>ord. ord\<lparr>status := Cancelled\<rparr>))
          (orders d) (expiredOrders now (orders d))"
    by (simp add: checkAndCancelExpiredPayments_def orders_foldl_cancelExpiredOrder)
  then show ?thesis
    using expired_iff [OF assms, of now] assms(2)
    by (simp add: findById_foldl_update)
qed

text \<open>
  Witness of C5 as amended, the scenario of the specification: order 10, pending with
  a payment code and placed at time 0, is cancelled by the tick at eleven minutes; paid, it
  is left alone.
\<close>

theorem reaper_cancels_only_expired_pending_witness:
  "distinct (map fst (orders (shopWith (orderTen Pending None) (txTwenty TxPending))))
   \<and> findById (orders (shopWith (orderTen Pending None) (txTwenty TxPending))) 10
       = Some (orderTen Pending None)
   \<and> findById (orders (checkAndCancelExpiredPayments 660000
         (shopWith (orderTen Pending None) (txTwenty TxPending)))) 10
       = Some (orderTen Cancelled None)
   \<and> findById (orders (checkAndCancelExpiredPayments 660000
         (shopWith (orderTen Paid (Some 1000)) (txTwenty TxCompleted)))) 10
       = Some (orderTen Paid (Some 1000))"
proof -
  have a: "distinct (map fst (orders (shopWith ord t)))" for ord t
    by (simp add: shopWith_def)
  have b: "findById (orders (shopWith ord t)) 10 = Some ord" for ord t
    by (simp add: shopWith_def findById_def)
  have c: "(orderTen Pending None)\<lparr>status := Cancelled\<rparr> = orderTen Cancelled None"
    by (simp add: orderTen_def)
  have e: "status (orderTen st p) = st \<and> paymentCode (orderTen st p) \<noteq> None
            \<and> orderAt (orderTen st p) = 0" for st p
    by (simp add: orderTen_def)
  from reaper_cancels_only_expired_pending
         [OF a [of "orderTen Pending None" "txTwenty TxPending"]
             b [of "orderTen Pending None" "txTwenty TxPending"], where now = 660000]
       reaper_cancels_only_expired_pending
         [OF a [of "orderTen Paid (Some 1000)" "txTwenty TxCompleted"]
             b [of "orderTen Paid (Some 1000)" "txTwenty TxCompleted"], where now = 660000]
       a b c e
  show ?thesis
    by simp
qed

text \<open>
  C5 as stated fails: the update carries no status condition. Order 10 was pending
  when a tick's query returned it and has been paid since; \<open>cancelExpiredOrder\<close> on the
  returned document sets the paid order to cancelled, and its completed transaction too.
\<close>

theorem stale_cancel_overwrites_paid:
  "map_option status
      (findById (orders (shopWith (orderTen Paid (Some 1000)) (txTwenty TxCompleted))) 10)
     = Some Paid
   \<and> map_option status
       (findById (orders (cancelExpiredOrder
          (shopWith (orderTen Paid (Some 1000)) (txTwenty TxCompleted))
          (10, orderTen Pending None))) 10)
     = Some Cancelled
   \<and> map_option transactionStatus
       (findById (transactions (cancelExpiredOrder
          (shopWith (orderTen Paid (Some 1000)) (txTwenty TxCompleted))
          (10, orderTen Pending None))) 20)
     = Some TxCancelled"
  by (simp add: cancelExpiredOrder_def shopWith_def orderTen_def txTwenty_def
      findById_def findByIdAndUpdate_def)


end
